theory Spec2Isabelle
  imports Main "HOL-Library.Multiset"
begin

section \<open>Python values shared by the modules\<close>

text \<open>
  Exceptions are values.  A function that may raise returns \<open>py_error + 'a\<close>, with \<open>Inl\<close>
  the raised exception.  The string carried by a constructor is the exception's message.
  Only the classes that the modelled functions raise or catch appear here; a \<open>try\<close> clause of
  the source is a case distinction on the constructor.
\<close>

datatype py_error =
    GraphQLError string
  | NotImplementedError string
  | IndexError
  | ValueError string
  | TypeError string
  | KeyError string
  | AttributeError string
  | OSError string
  | OstorlabError string
  | AgentDetailsNotFound
  | HTTPError string
  | RuntimeError string

text \<open>
  \<open>str.lower()\<close> on the ASCII range: the rating names and the characters of a URL scheme,
  the only strings it is applied to, are ASCII.
\<close>

definition lower_char :: "char \<Rightarrow> char" where
  "lower_char c =
     (let n = (of_char c :: nat) in if 65 \<le> n \<and> n \<le> 90 then char_of (n + 32) else c)"

definition lower :: "string \<Rightarrow> string" where
  "lower s = map lower_char s"

section \<open>serve_app/export_utils.py: the aggregate risk rating of a scan\<close>

text \<open>
  Modelled from the spec: the enumeration of ratings (\<open>common.RiskRatingEnum\<close>, and the type
  of the column \<open>risk_rating\<close> of \<open>models.Vulnerability\<close>) is missing from the sources.  The
  specification fixes its members: INFO, IMPORTANT, SECURE, HARDENING, POTENTIALLY, LOW,
  MEDIUM, HIGH, CRITICAL.  \<open>name\<close> is the member's \<open>.name\<close>.
\<close>

datatype risk_rating =
  CRITICAL | HIGH | MEDIUM | LOW | POTENTIALLY | HARDENING | SECURE | IMPORTANT | INFO

fun name :: "risk_rating \<Rightarrow> string" where
  "name CRITICAL = ''CRITICAL''"
| "name HIGH = ''HIGH''"
| "name MEDIUM = ''MEDIUM''"
| "name LOW = ''LOW''"
| "name POTENTIALLY = ''POTENTIALLY''"
| "name HARDENING = ''HARDENING''"
| "name SECURE = ''SECURE''"
| "name IMPORTANT = ''IMPORTANT''"
| "name INFO = ''INFO''"

text \<open>The dictionary \<open>RISK_RATINGS_ORDER\<close>, in the order of the source.\<close>

definition RISK_RATINGS_ORDER :: "(string \<times> nat) list" where
  "RISK_RATINGS_ORDER =
     [(name CRITICAL, 8), (name HIGH, 7), (name MEDIUM, 6), (name LOW, 5),
      (name POTENTIALLY, 4), (name HARDENING, 3), (name SECURE, 2), (name IMPORTANT, 1),
      (name INFO, 0)]"

text \<open>\<open>RISK_RATINGS_ORDER[k]\<close>: a missing key raises \<open>KeyError\<close>.\<close>

definition risk_ratings_order_getitem :: "string \<Rightarrow> py_error + nat" where
  "risk_ratings_order_getitem k =
     (case map_of RISK_RATINGS_ORDER k of None \<Rightarrow> Inl (KeyError k) | Some n \<Rightarrow> Inr n)"

text \<open>
  The rows of the tables \<open>scan\<close> and \<open>vulnerability\<close>, with the columns that the
  modelled functions read or write and the title that identifies a row to a reader.
\<close>

record scan =
  scan_id :: int
  scan_title :: string
  scan_agent_group_id :: "int option"

record vulnerability =
  vuln_id :: int
  vuln_scan_id :: int
  vuln_title :: string
  risk_rating :: risk_rating

text \<open>
  Python's \<open>max(iterable, key=f)\<close>: \<open>ValueError\<close> on an empty iterable; otherwise the key
  of every element is computed in order (an exception of \<open>f\<close> propagates) and the first
  element whose key is greatest is returned: a later element replaces the current best
  only when its key is strictly greater.
\<close>

fun max_from :: "('a \<Rightarrow> py_error + nat) \<Rightarrow> 'a \<Rightarrow> nat \<Rightarrow> 'a list \<Rightarrow> py_error + 'a" where
  "max_from f best bk [] = Inr best"
| "max_from f best bk (x # xs) =
     (case f x of
        Inl e \<Rightarrow> Inl e
      | Inr k \<Rightarrow> if bk < k then max_from f x k xs else max_from f best bk xs)"

definition py_max :: "('a \<Rightarrow> py_error + nat) \<Rightarrow> 'a list \<Rightarrow> py_error + 'a" where
  "py_max f xs =
     (case xs of
        [] \<Rightarrow> Inl (ValueError ''max() arg is an empty sequence'')
      | x # rest \<Rightarrow> (case f x of Inl e \<Rightarrow> Inl e | Inr k \<Rightarrow> max_from f x k rest))"

text \<open>
  \<open>query.distinct(models.Vulnerability.risk_rating)\<close>: one row for each value of the column,
  the first in table order.  (A backend that ignores the column and compares whole rows
  returns every row, since rows differ in their primary key; \<open>risk_of_rows_cong\<close> below
  shows that the computed rating is the same.)
\<close>

fun distinct_on :: "('a \<Rightarrow> 'b) \<Rightarrow> 'b list \<Rightarrow> 'a list \<Rightarrow> 'a list" where
  "distinct_on f seen [] = []"
| "distinct_on f seen (x # xs) =
     (if f x \<in> set seen then distinct_on f seen xs else x # distinct_on f (f x # seen) xs)"

text \<open>The part of \<open>_compute_risk_rating\<close> after the two queries.\<close>

definition risk_of_rows :: "vulnerability list \<Rightarrow> py_error + string" where
  "risk_of_rows distinct_vulnz =
     (if length distinct_vulnz = 0 then Inr ''unknown''
      else
        (case py_max (\<lambda>vuln. risk_ratings_order_getitem (name (risk_rating vuln))) distinct_vulnz of
           Inl e \<Rightarrow> Inl e
         | Inr vuln_highest_risk \<Rightarrow> Inr (lower (name (risk_rating vuln_highest_risk)))))"

definition compute_risk_rating :: "scan list \<Rightarrow> vulnerability list \<Rightarrow> int \<Rightarrow> py_error + string" where
  "compute_risk_rating scan_table vulnerability_table sid =
     (case find (\<lambda>s. scan_id s = sid) scan_table of
        None \<Rightarrow> Inr ''unknown''
      | Some s \<Rightarrow>
          (let vulnerabilities = filter (\<lambda>v. vuln_scan_id v = sid) vulnerability_table;
               distinct_vulnz = distinct_on risk_rating [] vulnerabilities
           in risk_of_rows distinct_vulnz))"

text \<open>The rank of a rating in the table, and the ratings reported for a scan.\<close>

definition rank :: "risk_rating \<Rightarrow> nat" where
  "rank r = (case map_of RISK_RATINGS_ORDER (name r) of None \<Rightarrow> 0 | Some n \<Rightarrow> n)"

definition reported_ratings :: "vulnerability list \<Rightarrow> int \<Rightarrow> risk_rating set" where
  "reported_ratings vulnerability_table sid =
     set (map risk_rating (filter (\<lambda>v. vuln_scan_id v = sid) vulnerability_table))"

section \<open>urllib.parse.urlparse, as far as the exporter reads its result\<close>

text \<open>
  \<open>TraceExporter.get_trace_exporter\<close> hands the tracing URL to the standard library's
  \<open>urllib.parse.urlparse\<close> and reads \<open>scheme\<close>, \<open>netloc\<close> and \<open>path\<close> of the result.  The
  functions below follow \<open>urllib/parse.py\<close> of CPython 3.11 (\<open>urlsplit\<close>, \<open>_splitnetloc\<close>,
  \<open>_splitparams\<close>, \<open>urlparse\<close>) line by line.  A Python string is modelled as a list of
  8-bit characters, that is, code points below 256; on those \<open>_checknetloc\<close> never raises
  (no such character normalises under NFKC to one of \<open>/?#@:\<close>), so it is left out.  The
  validation of a bracketed host by the \<open>ipaddress\<close> module is a parameter.
\<close>

record parse_result =
  scheme :: string
  netloc :: string
  path :: string
  params :: string
  query :: string
  fragment :: string

text \<open>\<open>s.find(c, start)\<close> and \<open>s.rfind(c)\<close>: the index, or \<open>-1\<close>.\<close>

definition py_find_from :: "char \<Rightarrow> string \<Rightarrow> nat \<Rightarrow> int" where
  "py_find_from c s start =
     (let r = drop start s
      in if c \<in> set r then int (start + length (takeWhile (\<lambda>x. x \<noteq> c) r)) else - 1)"

definition py_find :: "char \<Rightarrow> string \<Rightarrow> int" where
  "py_find c s = py_find_from c s 0"

definition py_rfind :: "char \<Rightarrow> string \<Rightarrow> int" where
  "py_rfind c s =
     (if c \<in> set s then int (length s - 1 - length (takeWhile (\<lambda>x. x \<noteq> c) (rev s))) else - 1)"

text \<open>\<open>s.split(c, 1)\<close> for a string that contains \<open>c\<close>: the text before and after the first \<open>c\<close>.\<close>

definition split_once :: "char \<Rightarrow> string \<Rightarrow> string \<times> string" where
  "split_once c s = (takeWhile (\<lambda>x. x \<noteq> c) s, drop 1 (dropWhile (\<lambda>x. x \<noteq> c) s))"

text \<open>\<open>s.split(c)\<close>: the pieces between the separators; never an empty list.\<close>

fun py_split :: "char \<Rightarrow> string \<Rightarrow> string list" where
  "py_split c [] = [[]]"
| "py_split c (x # xs) =
     (if x = c then [] # py_split c xs
      else (let r = py_split c xs in (x # hd r) # tl r))"

definition is_ascii_alpha :: "char \<Rightarrow> bool" where
  "is_ascii_alpha c =
     (let n = (of_char c :: nat) in (65 \<le> n \<and> n \<le> 90) \<or> (97 \<le> n \<and> n \<le> 122))"

definition is_scheme_char :: "char \<Rightarrow> bool" where
  "is_scheme_char c =
     (let n = (of_char c :: nat)
      in is_ascii_alpha c \<or> (48 \<le> n \<and> n \<le> 57) \<or> c = CHR ''+'' \<or> c = CHR ''-'' \<or> c = CHR ''.'')"

text \<open>\<open>url.lstrip(_WHATWG_C0_CONTROL_OR_SPACE)\<close>, then the removal of tab, CR and LF.\<close>

definition lstrip_c0_or_space :: "string \<Rightarrow> string" where
  "lstrip_c0_or_space url = dropWhile (\<lambda>c. (of_char c :: nat) \<le> 32) url"

definition remove_unsafe_bytes :: "string \<Rightarrow> string" where
  "remove_unsafe_bytes url = filter (\<lambda>c. c \<noteq> CHR 0x09 \<and> c \<noteq> CHR 0x0D \<and> c \<noteq> CHR 0x0A) url"

definition splitnetloc :: "string \<Rightarrow> nat \<Rightarrow> string \<times> string" where
  "splitnetloc url start =
     (let delim =
            foldl (\<lambda>delim c.
                     (let wdelim = py_find_from c url start
                      in if 0 \<le> wdelim then min delim (nat wdelim) else delim))
                  (length url) ''/?#''
      in (take (delim - start) (drop start url), drop delim url))"

definition urlsplit :: "(string \<Rightarrow> py_error option) \<Rightarrow> string \<Rightarrow> py_error + parse_result" where
  "urlsplit check_bracketed_host url0 =
     (let url = remove_unsafe_bytes (lstrip_c0_or_space url0);
          i = py_find CHR '':'' url;
          (scheme, url) =
            (if 0 < i \<and> is_ascii_alpha (hd url) \<and> list_all is_scheme_char (take (nat i) url)
             then (lower (take (nat i) url), drop (nat i + 1) url)
             else ('''', url));
          (netloc, url) = (if take 2 url = ''//'' then splitnetloc url 2 else ('''', url))
      in if (CHR ''['' \<in> set netloc \<and> CHR '']'' \<notin> set netloc)
            \<or> (CHR '']'' \<in> set netloc \<and> CHR ''['' \<notin> set netloc)
         then Inl (ValueError ''Invalid IPv6 URL'')
         else
           (case (if CHR ''['' \<in> set netloc \<and> CHR '']'' \<in> set netloc
                  then check_bracketed_host
                         (takeWhile (\<lambda>x. x \<noteq> CHR '']'')
                            (drop 1 (dropWhile (\<lambda>x. x \<noteq> CHR ''['') netloc)))
                  else None) of
              Some e \<Rightarrow> Inl e
            | None \<Rightarrow>
                (let (url, fragment) =
                       (if CHR ''#'' \<in> set url then split_once CHR ''#'' url else (url, ''''));
                     (url, query) =
                       (if CHR ''?'' \<in> set url then split_once CHR ''?'' url else (url, ''''))
                 in Inr \<lparr>scheme = scheme, netloc = netloc, path = url, params = '''',
                          query = query, fragment = fragment\<rparr>)))"

definition uses_params :: "string list" where
  "uses_params =
     ['''', ''ftp'', ''hdl'', ''prospero'', ''http'', ''imap'', ''https'', ''shttp'', ''rtsp'',
      ''rtsps'', ''rtspu'', ''sip'', ''sips'', ''mms'', ''sftp'', ''tel'']"

definition splitparams :: "string \<Rightarrow> string \<times> string" where
  "splitparams url =
     (if CHR ''/'' \<in> set url
      then (let i = py_find_from CHR '';'' url (nat (py_rfind CHR ''/'' url))
            in if i < 0 then (url, '''') else (take (nat i) url, drop (nat i + 1) url))
      else (let i = py_find CHR '';'' url in (take (nat i) url, drop (nat i + 1) url)))"

definition urlparse :: "(string \<Rightarrow> py_error option) \<Rightarrow> string \<Rightarrow> py_error + parse_result" where
  "urlparse check_bracketed_host url =
     (case urlsplit check_bracketed_host url of
        Inl e \<Rightarrow> Inl e
      | Inr r \<Rightarrow>
          if scheme r \<in> set uses_params \<and> CHR '';'' \<in> set (path r)
          then (let (url, ps) = splitparams (path r) in Inr (r\<lparr>path := url, params := ps\<rparr>))
          else Inr r)"

section \<open>agent/mixins/agent_open_telemetry_mixin.py\<close>

text \<open>
  What the module takes from outside: the bracketed-host check of \<open>urlparse\<close>, Python's
  \<open>int(str)\<close> (\<open>ValueError\<close> on a string that is no integer literal) and \<open>open(path, 'w')\<close>
  (an error, or a file opened for writing).
\<close>

record telemetry_env =
  check_bracketed_host :: "string \<Rightarrow> py_error option"
  py_int :: "string \<Rightarrow> py_error + int"
  open_w :: "string \<Rightarrow> py_error option"

text \<open>
  The span exporters the module constructs: \<open>jaeger.JaegerExporter(agent_host_name,
  agent_port, udp_split_oversized_batches)\<close> and \<open>ConsoleSpanExporter(out=file)\<close>, the file
  given by its path.
\<close>

datatype span_exporter =
    JaegerExporter string int bool
  | ConsoleSpanExporter string

text \<open>class \<open>TraceExporter\<close>: the URL and the file opened for the file exporter, if any.\<close>

record trace_exporter =
  te_tracing_collector_url :: string
  te_file :: "string option"

definition TraceExporter :: "string \<Rightarrow> trace_exporter" where
  "TraceExporter tracing_collector_url =
     \<lparr>te_tracing_collector_url = tracing_collector_url, te_file = None\<rparr>"

text \<open>\<open>xs[i]\<close> on a list: \<open>IndexError\<close> out of range (the indices used are 0 and 1).\<close>

definition getitem :: "'a list \<Rightarrow> nat \<Rightarrow> py_error + 'a" where
  "getitem xs i = (if i < length xs then Inr (xs ! i) else Inl IndexError)"

definition get_file_exporter ::
  "telemetry_env \<Rightarrow> trace_exporter \<Rightarrow> parse_result \<Rightarrow> py_error + (span_exporter \<times> trace_exporter)" where
  "get_file_exporter env self parsed_url =
     (let file_path = path parsed_url
      in case open_w env file_path of
           Some e \<Rightarrow> Inl e
         | None \<Rightarrow> Inr (ConsoleSpanExporter file_path, self\<lparr>te_file := Some file_path\<rparr>))"

definition get_jaeger_exporter ::
  "telemetry_env \<Rightarrow> trace_exporter \<Rightarrow> parse_result \<Rightarrow> py_error + (span_exporter \<times> trace_exporter)" where
  "get_jaeger_exporter env self parsed_url =
     (let nl = netloc parsed_url
      in case getitem (py_split CHR '':'' nl) 0 of
           Inl e \<Rightarrow> Inl e
         | Inr hostname \<Rightarrow>
             (case getitem (py_split CHR '':'' nl) 1 of
                Inl e \<Rightarrow> Inl e
              | Inr port_text \<Rightarrow>
                  (case py_int env port_text of
                     Inl e \<Rightarrow> Inl e
                   | Inr port \<Rightarrow> Inr (JaegerExporter hostname port True, self))))"

definition get_trace_exporter ::
  "telemetry_env \<Rightarrow> trace_exporter \<Rightarrow> py_error + (span_exporter \<times> trace_exporter)" where
  "get_trace_exporter env self =
     (case urlparse (check_bracketed_host env) (te_tracing_collector_url self) of
        Inl e \<Rightarrow> Inl e
      | Inr parsed_url \<Rightarrow>
          if scheme parsed_url = ''jaeger'' then get_jaeger_exporter env self parsed_url
          else if scheme parsed_url = ''file'' then get_file_exporter env self parsed_url
          else Inl (NotImplementedError (''Invalid tracer type '' @ scheme parsed_url)))"

text \<open>
  The agent definition and the runtime settings (\<open>definitions.AgentSettings\<close>), with the
  fields that the mixin reads and that \<open>RunScanMutation\<close> sets.  \<open>self.name\<close> is set by the
  base agent class from the definition's name.
\<close>

record agent_definition =
  ad_name :: string

record arg =
  arg_name :: string
  arg_type :: string
  arg_value :: string
  arg_description :: "string option"

record agent_settings =
  as_key :: string
  as_version :: "string option"
  as_args :: "arg list"
  as_tracing_collector_url :: "string option"

datatype span_processor = SimpleSpanProcessor span_exporter

text \<open>
  The tracer provider created in \<open>__init__\<close>: its resource's service name and the span
  processors added to it.  \<open>self.tracer\<close> is the tracer obtained from this provider (the
  process holds one agent, so the provider set globally is the one just created).
\<close>

record tracer_provider =
  tp_service_name :: string
  tp_span_processors :: "span_processor list"

text \<open>
  An \<open>OpenTelemetryMixin\<close> object.  \<open>_exporter\<close>, \<open>_span_processor\<close> and \<open>tracer\<close> are
  assigned only in the tracing branch of \<open>__init__\<close>: \<open>None\<close> here means that the object has
  no such attribute, and reading it raises \<open>AttributeError\<close>.  \<open>_tracing_collector_url\<close> is
  always assigned, and its \<open>None\<close> is Python's.  The \<open>__init__\<close> of the next class, called
  first, is taken to return; an exception of \<open>get_trace_exporter\<close> leaves \<open>__init__\<close>, and no
  object is built.
\<close>

record open_telemetry_mixin =
  self_name :: string
  self_agent_settings :: agent_settings
  self_tracing_collector_url :: "string option"
  self_exporter :: "trace_exporter option"
  self_span_processor :: "span_processor option"
  self_tracer :: "tracer_provider option"

definition mixin_init ::
  "telemetry_env \<Rightarrow> agent_definition \<Rightarrow> agent_settings \<Rightarrow> py_error + open_telemetry_mixin" where
  "mixin_init env agent_definition agent_settings =
     (let url =
            (if as_tracing_collector_url agent_settings \<noteq> None
                \<and> as_tracing_collector_url agent_settings \<noteq> Some ''''
             then as_tracing_collector_url agent_settings
             else None);
          self = \<lparr>self_name = ad_name agent_definition, self_agent_settings = agent_settings,
                  self_tracing_collector_url = url, self_exporter = None,
                  self_span_processor = None, self_tracer = None\<rparr>
      in case url of
           None \<Rightarrow> Inr self
         | Some u \<Rightarrow>
             (let provider = \<lparr>tp_service_name = as_key agent_settings, tp_span_processors = []\<rparr>
              in case get_trace_exporter env (TraceExporter u) of
                   Inl e \<Rightarrow> Inl e
                 | Inr (span_exporter, exporter) \<Rightarrow>
                     (let span_processor = SimpleSpanProcessor span_exporter
                      in Inr (self\<lparr>self_exporter := Some exporter,
                                    self_span_processor := Some span_processor,
                                    self_tracer :=
                                      Some (provider\<lparr>tp_span_processors := [span_processor]\<rparr>)\<rparr>))))"

text \<open>
  \<open>force_flush_file_exporter\<close>: \<open>SimpleSpanProcessor.force_flush\<close> itself has nothing
  buffered and returns; what can fail is reading \<open>self._span_processor\<close>.
\<close>

definition force_flush_file_exporter :: "open_telemetry_mixin \<Rightarrow> py_error + unit" where
  "force_flush_file_exporter self =
     (case self_span_processor self of
        None \<Rightarrow> Inl (AttributeError ''_span_processor'')
      | Some span_processor \<Rightarrow> Inr ())"

text \<open>
  What a run of \<open>process_message\<close> or \<open>emit\<close> does is recorded as a list of events, in
  order: the operations on the span and the call of the method of the next class
  (\<open>super().process_message\<close>, \<open>super().emit\<close>).  The payload of \<open>emit\<close> is a dictionary
  that the mixin passes on untouched: a type parameter.  Log lines are not recorded.
\<close>

datatype 'd event =
    Span_start string
  | Span_set_attribute string string
  | Span_record_exception py_error
  | Span_set_status_error
  | Span_end
  | Super_process_message string string
  | Super_emit string 'd

text \<open>
  \<open>with tracer.start_as_current_span(name) as span: body\<close>.  The context manager is
  OpenTelemetry's, with its defaults (\<open>record_exception\<close>, \<open>set_status_on_exception\<close>,
  \<open>end_on_exit\<close> all true): the span is started; when the body returns the span is ended;
  when the body raises, the exception is recorded on the span, the span's status is set to
  error, the span is ended and the exception is raised again.  The statements of the body
  after the one that raises are not executed: that is Python's.
\<close>

definition start_as_current_span ::
  "string \<Rightarrow> ('d event list \<Rightarrow> (py_error + unit) \<times> 'd event list) \<Rightarrow> 'd event list
     \<Rightarrow> (py_error + unit) \<times> 'd event list" where
  "start_as_current_span span_name body log =
     (case body (log @ [Span_start span_name]) of
        (Inl e, log') \<Rightarrow> (Inl e, log' @ [Span_record_exception e, Span_set_status_error, Span_end])
      | (Inr u, log') \<Rightarrow> (Inr u, log' @ [Span_end]))"

text \<open>
  The method of the next class: it is called, and it returns (\<open>None\<close>) or raises
  (\<open>Some e\<close>), as the parameter \<open>handler\<close> (or \<open>publish\<close>) says for these arguments.
\<close>

definition super_process_message ::
  "(string \<Rightarrow> string \<Rightarrow> py_error option) \<Rightarrow> string \<Rightarrow> string \<Rightarrow> 'd event list
     \<Rightarrow> (py_error + unit) \<times> 'd event list" where
  "super_process_message handler selector message log =
     ((case handler selector message of Some e \<Rightarrow> Inl e | None \<Rightarrow> Inr ()),
      log @ [Super_process_message selector message])"

definition super_emit ::
  "(string \<Rightarrow> 'd \<Rightarrow> py_error option) \<Rightarrow> string \<Rightarrow> 'd \<Rightarrow> 'd event list
     \<Rightarrow> (py_error + unit) \<times> 'd event list" where
  "super_emit publish selector data log =
     ((case publish selector data of Some e \<Rightarrow> Inl e | None \<Rightarrow> Inr ()),
      log @ [Super_emit selector data])"

definition process_message ::
  "open_telemetry_mixin \<Rightarrow> (string \<Rightarrow> string \<Rightarrow> py_error option) \<Rightarrow> string \<Rightarrow> string
     \<Rightarrow> 'd event list \<Rightarrow> (py_error + unit) \<times> 'd event list" where
  "process_message self handler selector message log =
     (if self_tracing_collector_url self \<noteq> None
      then
        (case self_tracer self of
           None \<Rightarrow> (Inl (AttributeError ''tracer''), log)
         | Some tracer \<Rightarrow>
             start_as_current_span ''process_message''
               (\<lambda>log.
                  (case super_process_message handler selector message log of
                     (Inl e, log') \<Rightarrow> (Inl e, log')
                   | (Inr u, log') \<Rightarrow>
                       (Inr (),
                        log' @ [Span_set_attribute ''agent.name'' (self_name self),
                                Span_set_attribute ''message.selector'' selector])))
               log)
      else super_process_message handler selector message log)"

definition emit ::
  "open_telemetry_mixin \<Rightarrow> (string \<Rightarrow> 'd \<Rightarrow> py_error option) \<Rightarrow> string \<Rightarrow> 'd
     \<Rightarrow> 'd event list \<Rightarrow> (py_error + unit) \<times> 'd event list" where
  "emit self publish selector data log =
     (if self_tracing_collector_url self \<noteq> None
      then
        (case self_tracer self of
           None \<Rightarrow> (Inl (AttributeError ''tracer''), log)
         | Some tracer \<Rightarrow>
             start_as_current_span ''emit_message''
               (\<lambda>log.
                  (case super_emit publish selector data log of
                     (Inl e, log') \<Rightarrow> (Inl e, log')
                   | (Inr u, log') \<Rightarrow>
                       (Inr (),
                        log' @ [Span_set_attribute ''agent.name'' (self_name self),
                                Span_set_attribute ''message.selector'' selector])))
               log)
      else super_emit publish selector data log)"

text \<open>
  Example data for the closed instances below: an environment in which every file opens
  and a bracketed host is accepted, with \<open>int\<close> on the one port number used; the agents
  that \<open>__init__\<close> builds for a file exporter and for an empty URL; a base handler that
  raises, and one that returns.
\<close>

definition example_env :: telemetry_env where
  "example_env =
     \<lparr>check_bracketed_host = (\<lambda>h. None),
      py_int = (\<lambda>s. if s = ''8631'' then Inr 8631
                     else Inl (ValueError ''invalid literal for int() with base 10'')),
      open_w = (\<lambda>p. None)\<rparr>"

definition example_definition :: agent_definition where
  "example_definition = \<lparr>ad_name = ''demo''\<rparr>"

definition example_settings :: "string option \<Rightarrow> agent_settings" where
  "example_settings url =
     \<lparr>as_key = ''agent/demo'', as_version = None, as_args = [], as_tracing_collector_url = url\<rparr>"

definition example_traced_agent :: open_telemetry_mixin where
  "example_traced_agent =
     \<lparr>self_name = ''demo'',
      self_agent_settings = example_settings (Some ''file:/tmp/trace.json''),
      self_tracing_collector_url = Some ''file:/tmp/trace.json'',
      self_exporter = Some \<lparr>te_tracing_collector_url = ''file:/tmp/trace.json'',
                             te_file = Some ''/tmp/trace.json''\<rparr>,
      self_span_processor = Some (SimpleSpanProcessor (ConsoleSpanExporter ''/tmp/trace.json'')),
      self_tracer = Some \<lparr>tp_service_name = ''agent/demo'',
         tp_span_processors = [SimpleSpanProcessor (ConsoleSpanExporter ''/tmp/trace.json'')]\<rparr>\<rparr>"

definition example_untraced_agent :: open_telemetry_mixin where
  "example_untraced_agent =
     \<lparr>self_name = ''demo'', self_agent_settings = example_settings (Some ''''),
      self_tracing_collector_url = None, self_exporter = None, self_span_processor = None,
      self_tracer = None\<rparr>"

definition failing_handler :: "string \<Rightarrow> string \<Rightarrow> py_error option" where
  "failing_handler selector message = Some (RuntimeError ''boom'')"

definition returning_handler :: "string \<Rightarrow> string \<Rightarrow> py_error option" where
  "returning_handler selector message = None"

section \<open>serve_app/oxo.py: queries and mutations\<close>

subsection \<open>The database, the file system and the collaborators\<close>

text \<open>
  The rows of the tables the modelled resolvers touch.  An asset row carries its target
  in a constructor named after the row's \<open>type\<close>: store applications, uploaded files
  (with the path they were written to), a list of links, a list of networks;
  \<open>Other_row\<close> stands for a row of any other type.
\<close>

record link =
  link_url :: string
  link_method :: "string option"

datatype asset_target =
    Android_store_row string string
  | Android_file_row string string
  | Ios_store_row string string
  | Ios_file_row string string
  | Urls_row "link list"
  | Network_row "string list"
  | Other_row string

record asset =
  asset_id :: int
  asset_scan_id :: "int option"
  asset_target :: asset_target

record agent_argument =
  aa_agent_id :: int
  aa_name :: string
  aa_type :: string
  aa_value :: string
  aa_description :: "string option"

record agent =
  agent_id :: int
  agent_key :: string

record agent_group =
  ag_id :: int
  ag_name :: string
  ag_description :: string
  ag_agents :: "agent list"

text \<open>
  What a resolver does outside its return value is recorded in \<open>calls\<close>, in order: the
  look-ups by id that decide a "not found", and the calls into the runtime and the agent
  installer.
\<close>

datatype call =
    Query_scan int
  | Query_agent_group int
  | Runtime_stop int
  | Runtime_install
  | Install_agent string "string option"
  | Runtime_can_run
  | Runtime_scan string

record world =
  scans :: "scan list"
  vulnerabilities :: "vulnerability list"
  agent_groups :: "agent_group list"
  agent_arguments :: "agent_argument list"
  assets :: "asset list"
  files :: "string \<rightharpoonup> string"
  uuid_count :: nat
  calls :: "call list"

text \<open>The assets handed to the runtime (\<open>ostorlab.assets\<close>).\<close>

datatype scan_asset =
    AndroidApk string string
  | AndroidAab string string
  | IOSIpa string string
  | AndroidStore string
  | IOSStore string
  | IPv4 string string
  | IPv6 string string
  | Link "string option" "string option"

record agent_group_definition =
  agd_name :: string
  agd_description :: string
  agd_agents :: "agent_settings list"

text \<open>The inputs of \<open>createAssets\<close> (\<open>types.OxoAssetInputType\<close>): every target is optional.\<close>

record android_store_input =
  asi_package_name :: string
  asi_application_name :: string

record android_file_input =
  afi_file :: string
  afi_package_name :: string

record ios_store_input =
  isi_bundle_id :: string
  isi_application_name :: string

record ios_file_input =
  ifi_file :: string
  ifi_bundle_id :: string

record ip_input =
  ip_host :: string
  ip_mask :: "string option"

record asset_input =
  android_store :: "android_store_input option"
  android_file :: "android_file_input option"
  ios_store :: "ios_store_input option"
  ios_file :: "ios_file_input option"
  link :: "link list option"
  ip :: "ip_input list option"

text \<open>A Python value that \<open>can_run\<close> may return; \<open>v is True\<close> holds of \<open>PyBool True\<close> only.\<close>

datatype py_value = PyBool bool | PyNone | PyObject string

text \<open>
  The collaborators declared outside these files, as parameters: the configured upload
  directory, \<open>uuid.uuid4\<close> (the n-th identifier drawn), the rendering of an asset input
  in an error message, the file-type tests of \<open>common\<close>, \<open>ipaddress.ip_network\<close> (version,
  exploded network address, prefix length), \<open>Arg.build\<close>, and the local runtime's \<open>stop\<close>,
  \<open>install\<close>, \<open>can_run\<close> and \<open>scan\<close> with the agent installer.  A collaborator that may raise
  returns an error, and one that writes to the database returns the new state.

  The three \<open>json_loads\<close> parameters are \<open>json.loads\<close> where \<open>_prepare_assets\<close> calls it.
  What the persistence layer keeps in the columns \<open>networks\<close> and \<open>links\<close> of a row is its
  own; a row is modelled by the networks and links it was created with, and
  \<open>json_loads_networks\<close> and \<open>json_loads_links\<close> say what \<open>json.loads\<close> makes of that row's
  column: a list of items, or an exception (\<open>TypeError\<close> when the column is no text,
  \<open>ValueError\<close> when the text is no JSON).  \<open>json_loads_url\<close> says what \<open>json.loads\<close> makes
  of one item of the list of links, read with \<open>.get("url")\<close> and \<open>.get("method")\<close>.
\<close>

record runtime_env =
  upload_path :: string
  uuid4 :: "nat \<Rightarrow> string"
  str_asset_input :: "asset_input \<Rightarrow> string"
  is_apk :: "string \<Rightarrow> bool"
  is_xapk :: "string \<Rightarrow> bool"
  is_aab :: "string \<Rightarrow> bool"
  ip_network :: "string \<Rightarrow> py_error + (nat \<times> string \<times> string)"
  json_loads_networks :: "string list \<Rightarrow> py_error + string list"
  json_loads_links :: "link list \<Rightarrow> py_error + string list"
  json_loads_url :: "string \<Rightarrow> py_error + (string option \<times> string option)"
  arg_build :: "agent_argument \<Rightarrow> py_error + arg"
  runtime_stop :: "int \<Rightarrow> world \<Rightarrow> py_error option \<times> world"
  runtime_install :: "py_error option"
  install_agent :: "string \<Rightarrow> string option \<Rightarrow> py_error option"
  can_run :: "agent_group_definition \<Rightarrow> py_error + py_value"
  runtime_scan :: "string \<Rightarrow> agent_group_definition \<Rightarrow> scan_asset list \<Rightarrow> world
                     \<Rightarrow> py_error + (scan \<times> world)"

definition log_call :: "call \<Rightarrow> world \<Rightarrow> world" where
  "log_call c w = w\<lparr>calls := calls w @ [c]\<rparr>"

subsection \<open>Query.resolve_scan, StopScanMutation, DeleteAgentGroupMutation\<close>

definition resolve_scan :: "int \<Rightarrow> world \<Rightarrow> (py_error + scan) \<times> world" where
  "resolve_scan sid w =
     (case find (\<lambda>s. scan_id s = sid) (scans w) of
        None \<Rightarrow> (Inl (GraphQLError ''Scan not found.''), log_call (Query_scan sid) w)
      | Some s \<Rightarrow> (Inr s, log_call (Query_scan sid) w))"

definition stop_scan_mutate :: "runtime_env \<Rightarrow> int \<Rightarrow> world \<Rightarrow> (py_error + scan) \<times> world" where
  "stop_scan_mutate env sid w =
     (case find (\<lambda>s. scan_id s = sid) (scans w) of
        None \<Rightarrow> (Inl (GraphQLError ''Scan not found.''), log_call (Query_scan sid) w)
      | Some s \<Rightarrow>
          (case runtime_stop env sid (log_call (Runtime_stop sid) (log_call (Query_scan sid) w)) of
             (Some e, w') \<Rightarrow> (Inl e, w')
           | (None, w') \<Rightarrow> (Inr s, w')))"

definition delete_agent_group_mutate :: "int \<Rightarrow> world \<Rightarrow> (py_error + bool) \<times> world" where
  "delete_agent_group_mutate gid w =
     (if length (filter (\<lambda>g. ag_id g = gid) (agent_groups w)) = 0
      then (Inl (GraphQLError ''AgentGroup not found.''), log_call (Query_agent_group gid) w)
      else (Inr True,
            (log_call (Query_agent_group gid) w)
              \<lparr>agent_groups := filter (\<lambda>g. ag_id g \<noteq> gid) (agent_groups w)\<rparr>))"

subsection \<open>CreateAssetsMutation\<close>

definition validate :: "runtime_env \<Rightarrow> asset_input \<Rightarrow> string option" where
  "validate env asset =
     (let n = (if android_store asset \<noteq> None then 1 else 0)
            + (if android_file asset \<noteq> None then 1 else 0)
            + (if ios_store asset \<noteq> None then 1 else 0)
            + (if ios_file asset \<noteq> None then 1 else 0)
            + (if link asset \<noteq> None then 1 else 0)
            + (if ip asset \<noteq> None then 1 else (0::nat))
      in if n = 0 then Some (''Asset '' @ str_asset_input env asset @ '' input is missing target.'')
         else if 2 \<le> n
         then Some (''Single target input must be defined for asset ''
                     @ str_asset_input env asset @ ''.'')
         else None)"

text \<open>
  Modelled from the spec: \<open>models.<Asset>.create\<close> is declared outside these files.  The
  persistence layer stores the new row and returns it with its id (the tests read the row
  back from the table after the mutation); ids count up from the greatest id in the table.
\<close>

definition create_asset :: "asset_target \<Rightarrow> world \<Rightarrow> asset \<times> world" where
  "create_asset target w =
     (let new_asset = \<lparr>asset_id = fold max (map asset_id (assets w)) 0 + 1,
                       asset_scan_id = None, asset_target = target\<rparr>
      in (new_asset, w\<lparr>assets := assets w @ [new_asset]\<rparr>))"

text \<open>\<open>new_asset = create(...); created_assets.append(new_asset)\<close>.\<close>

definition create_and_append :: "asset_target \<Rightarrow> asset list \<times> world \<Rightarrow> asset list \<times> world" where
  "create_and_append target cw =
     (let (new_asset, w') = create_asset target (snd cw) in (fst cw @ [new_asset], w'))"

text \<open>
  \<open>path = config_manager.upload_path / f"<prefix>_{uuid.uuid4()}"; path.write_bytes(content)\<close>.
\<close>

definition write_upload :: "runtime_env \<Rightarrow> string \<Rightarrow> string \<Rightarrow> world \<Rightarrow> string \<times> world" where
  "write_upload env prefix content w =
     (let file_path = upload_path env @ ''/'' @ prefix @ ''_'' @ uuid4 env (uuid_count w)
      in (file_path, w\<lparr>files := (files w)(file_path \<mapsto> content), uuid_count := Suc (uuid_count w)\<rparr>))"

definition network_text :: "ip_input \<Rightarrow> string" where
  "network_text ip_input =
     (case ip_mask ip_input of Some m \<Rightarrow> ip_host ip_input @ ''/'' @ m | None \<Rightarrow> ip_host ip_input)"

text \<open>The six \<open>if asset.<target> is not None\<close> statements of the loop body, in order.\<close>

definition create_targets ::
  "runtime_env \<Rightarrow> asset_input \<Rightarrow> asset list \<times> world \<Rightarrow> asset list \<times> world" where
  "create_targets env asset cw0 =
     (let cw1 = (case android_store asset of
                   None \<Rightarrow> cw0
                 | Some s \<Rightarrow>
                     create_and_append
                       (Android_store_row (asi_package_name s) (asi_application_name s)) cw0);
          cw2 = (case android_file asset of
                   None \<Rightarrow> cw1
                 | Some f \<Rightarrow>
                     (let (android_file_path, w) = write_upload env ''android'' (afi_file f) (snd cw1)
                      in create_and_append
                           (Android_file_row (afi_package_name f) android_file_path) (fst cw1, w)));
          cw3 = (case ios_store asset of
                   None \<Rightarrow> cw2
                 | Some s \<Rightarrow>
                     create_and_append
                       (Ios_store_row (isi_bundle_id s) (isi_application_name s)) cw2);
          cw4 = (case ios_file asset of
                   None \<Rightarrow> cw3
                 | Some f \<Rightarrow>
                     (let (ios_file_path, w) = write_upload env ''ios'' (ifi_file f) (snd cw3)
                      in create_and_append
                           (Ios_file_row (ifi_bundle_id f) ios_file_path) (fst cw3, w)));
          cw5 = (case link asset of
                   None \<Rightarrow> cw4
                 | Some links \<Rightarrow> create_and_append (Urls_row links) cw4);
          cw6 = (case ip asset of
                   None \<Rightarrow> cw5
                 | Some ips \<Rightarrow> create_and_append (Network_row (map network_text ips)) cw5)
      in cw6)"

fun create_assets_loop ::
  "runtime_env \<Rightarrow> asset_input list \<Rightarrow> asset list \<Rightarrow> string list \<Rightarrow> world
     \<Rightarrow> asset list \<times> string list \<times> world" where
  "create_assets_loop env [] created_assets errors w = (created_assets, errors, w)"
| "create_assets_loop env (asset # rest) created_assets errors w =
     (case validate env asset of
        Some error_message \<Rightarrow>
          create_assets_loop env rest created_assets (errors @ [error_message]) w
      | None \<Rightarrow>
          (let (created_assets', w') = create_targets env asset (created_assets, w)
           in create_assets_loop env rest created_assets' errors w'))"

text \<open>\<open>sep.join(xs)\<close>.\<close>

fun join :: "string \<Rightarrow> string list \<Rightarrow> string" where
  "join sep [] = []"
| "join sep [x] = x"
| "join sep (x # y # ys) = x @ sep @ join sep (y # ys)"

definition create_assets_mutate ::
  "runtime_env \<Rightarrow> asset_input list \<Rightarrow> world \<Rightarrow> (py_error + asset list) \<times> world" where
  "create_assets_mutate env asset_inputs w =
     (let (created_assets, errors, w') = create_assets_loop env asset_inputs [] [] w
      in if 0 < length errors
         then (Inl (GraphQLError (''Invalid assets: '' @ join [CHR 0x0A] errors)), w')
         else (Inr created_assets, w'))"

subsection \<open>RunScanMutation\<close>

text \<open>
  The arguments of one agent, each built by \<open>Arg.build\<close>, and the settings of the agents
  of a group; an exception of \<open>Arg.build\<close> leaves \<open>_prepare_agent_group\<close>.
\<close>

fun build_args :: "runtime_env \<Rightarrow> agent_argument list \<Rightarrow> py_error + arg list" where
  "build_args env [] = Inr []"
| "build_args env (a # rest) =
     (case arg_build env a of
        Inl e \<Rightarrow> Inl e
      | Inr built \<Rightarrow>
          (case build_args env rest of
             Inl e \<Rightarrow> Inl e
           | Inr others \<Rightarrow> Inr (built # others)))"

fun agents_settings :: "runtime_env \<Rightarrow> world \<Rightarrow> agent list \<Rightarrow> py_error + agent_settings list" where
  "agents_settings env w [] = Inr []"
| "agents_settings env w (agent # rest) =
     (case build_args env (filter (\<lambda>a. aa_agent_id a = agent_id agent) (agent_arguments w)) of
        Inl e \<Rightarrow> Inl e
      | Inr args \<Rightarrow>
          (case agents_settings env w rest of
             Inl e \<Rightarrow> Inl e
           | Inr others \<Rightarrow>
               Inr (\<lparr>as_key = hd (py_split CHR '':'' (agent_key agent)),
                     as_version =
                       (if CHR '':'' \<in> set (agent_key agent)
                        then Some (py_split CHR '':'' (agent_key agent) ! 1) else None),
                     as_args = args,
                     as_tracing_collector_url = None\<rparr> # others)))"

definition prepare_agent_group ::
  "runtime_env \<Rightarrow> world \<Rightarrow> int \<Rightarrow> py_error + agent_group_definition" where
  "prepare_agent_group env w agent_group_id =
     (case find (\<lambda>g. ag_id g = agent_group_id) (agent_groups w) of
        None \<Rightarrow> Inl (GraphQLError ''Agent group not found.'')
      | Some agent_group \<Rightarrow>
          (case agents_settings env w (ag_agents agent_group) of
             Inl e \<Rightarrow> Inl e
           | Inr agents \<Rightarrow>
               Inr \<lparr>agd_name = ag_name agent_group,
                    agd_description = ag_description agent_group,
                    agd_agents = agents\<rparr>))"

text \<open>The networks of a network asset, one scan asset for each.\<close>

fun networks_assets :: "runtime_env \<Rightarrow> string list \<Rightarrow> py_error + scan_asset list" where
  "networks_assets env [] = Inr []"
| "networks_assets env (ip_text # rest) =
     (case ip_network env ip_text of
        Inl e \<Rightarrow> Inl e
      | Inr (version, host, prefixlen) \<Rightarrow>
          if version = 4
          then (case networks_assets env rest of
                  Inl e \<Rightarrow> Inl e | Inr others \<Rightarrow> Inr (IPv4 host prefixlen # others))
          else if version = 6
          then (case networks_assets env rest of
                  Inl e \<Rightarrow> Inl e | Inr others \<Rightarrow> Inr (IPv6 host prefixlen # others))
          else Inl (GraphQLError (''Invalid IP address '' @ ip_text)))"

text \<open>
  The links of a urls asset: each item of the decoded list is decoded in turn
  (\<open>url = json.loads(url)\<close>) and gives \<open>Link(url=url.get("url"), method=url.get("method"))\<close>.
\<close>

fun links_assets :: "runtime_env \<Rightarrow> string list \<Rightarrow> py_error + scan_asset list" where
  "links_assets env [] = Inr []"
| "links_assets env (item # rest) =
     (case json_loads_url env item of
        Inl e \<Rightarrow> Inl e
      | Inr (u, m) \<Rightarrow>
          (case links_assets env rest of
             Inl e \<Rightarrow> Inl e | Inr others \<Rightarrow> Inr (Link u m # others)))"

text \<open>
  One pass of the loop of \<open>_prepare_assets\<close>: the scan assets of one row.  For a network
  row and a urls row the column is first decoded (\<open>json.loads(asset.networks)\<close>,
  \<open>json.loads(asset.links)\<close>), and an exception of the decoder leaves the loop.
\<close>

definition row_scan_assets :: "runtime_env \<Rightarrow> world \<Rightarrow> asset \<Rightarrow> py_error + scan_asset list" where
  "row_scan_assets env w row =
     (case asset_target row of
        Android_file_row package_name file_path \<Rightarrow>
          (case files w file_path of
             None \<Rightarrow> Inl (GraphQLError (''File '' @ file_path @ '' not found.''))
           | Some file_bytes \<Rightarrow>
               if is_apk env file_bytes \<or> is_xapk env file_bytes
               then Inr [AndroidApk file_bytes file_path]
               else if is_aab env file_bytes then Inr [AndroidAab file_bytes file_path]
               else Inl (GraphQLError (''Unsupported file type: '' @ file_path)))
      | Ios_file_row bundle_id file_path \<Rightarrow>
          (case files w file_path of
             None \<Rightarrow> Inl (GraphQLError (''File '' @ file_path @ '' not found.''))
           | Some file_bytes \<Rightarrow> Inr [IOSIpa file_bytes file_path])
      | Android_store_row package_name application_name \<Rightarrow> Inr [AndroidStore package_name]
      | Ios_store_row bundle_id application_name \<Rightarrow> Inr [IOSStore bundle_id]
      | Network_row networks \<Rightarrow>
          (case json_loads_networks env networks of
             Inl e \<Rightarrow> Inl e
           | Inr ips \<Rightarrow> networks_assets env ips)
      | Urls_row links \<Rightarrow>
          (case json_loads_links env links of
             Inl e \<Rightarrow> Inl e
           | Inr urls \<Rightarrow> links_assets env urls)
      | Other_row t \<Rightarrow> Inl (GraphQLError ''Unsupported asset type.''))"

fun rows_scan_assets :: "runtime_env \<Rightarrow> world \<Rightarrow> asset list \<Rightarrow> py_error + scan_asset list" where
  "rows_scan_assets env w [] = Inr []"
| "rows_scan_assets env w (row # rest) =
     (case row_scan_assets env w row of
        Inl e \<Rightarrow> Inl e
      | Inr found \<Rightarrow>
          (case rows_scan_assets env w rest of
             Inl e \<Rightarrow> Inl e
           | Inr others \<Rightarrow> Inr (found @ others)))"

definition prepare_assets :: "runtime_env \<Rightarrow> world \<Rightarrow> int list \<Rightarrow> py_error + scan_asset list" where
  "prepare_assets env w asset_ids =
     (let rows = filter (\<lambda>a. asset_id a \<in> set asset_ids) (assets w)
      in if length rows = 0 then Inl (GraphQLError ''Assets not found.'')
         else rows_scan_assets env w rows)"

text \<open>
  The loop of \<open>_install_agents\<close>.  \<open>AgentDetailsNotFound\<close> is caught: the handler builds a
  \<open>GraphQLError\<close> and drops it (the expression is not raised), and the loop goes on.  Any
  other exception leaves the loop.
\<close>

fun install_each :: "runtime_env \<Rightarrow> agent_settings list \<Rightarrow> world \<Rightarrow> py_error option \<times> world" where
  "install_each env [] w = (None, w)"
| "install_each env (ag # rest) w =
     (case install_agent env (as_key ag) (as_version ag) of
        None \<Rightarrow> install_each env rest (log_call (Install_agent (as_key ag) (as_version ag)) w)
      | Some AgentDetailsNotFound \<Rightarrow>
          install_each env rest (log_call (Install_agent (as_key ag) (as_version ag)) w)
      | Some e \<Rightarrow> (Some e, log_call (Install_agent (as_key ag) (as_version ag)) w))"

definition install_agents ::
  "runtime_env \<Rightarrow> agent_group_definition \<Rightarrow> world \<Rightarrow> (py_error + unit) \<times> world" where
  "install_agents env agent_group w =
     (case (case runtime_install env of
              Some e \<Rightarrow> (Some e, log_call Runtime_install w)
            | None \<Rightarrow> install_each env (agd_agents agent_group) (log_call Runtime_install w)) of
        (None, w') \<Rightarrow> (Inr (), w')
      | (Some (HTTPError msg), w') \<Rightarrow>
          (Inl (GraphQLError (''Could not install the agents: '' @ msg)), w')
      | (Some e, w') \<Rightarrow> (Inl e, w'))"

record scan_input =
  si_title :: string
  si_asset_ids :: "int list"
  si_agent_group_id :: int

text \<open>
  \<open>RunScanMutation.mutate\<close>.  The result \<open>Inr None\<close> is the method falling off its end and
  returning Python's \<open>None\<close>.  After the runtime has created the scan, the returned object
  gets the agent group's id and the selected asset rows get the scan's id.
\<close>

definition run_scan_mutate ::
  "runtime_env \<Rightarrow> scan_input \<Rightarrow> world \<Rightarrow> (py_error + scan option) \<times> world" where
  "run_scan_mutate env scan w =
     (case prepare_agent_group env w (si_agent_group_id scan) of
        Inl e \<Rightarrow> (Inl e, w)
      | Inr agent_group \<Rightarrow>
          (case prepare_assets env w (si_asset_ids scan) of
             Inl e \<Rightarrow> (Inl e, w)
           | Inr scan_assets \<Rightarrow>
               (case can_run env agent_group of
                  Inl (OstorlabError msg) \<Rightarrow>
                    (Inl (GraphQLError (''Runtime encountered an error to run scan: '' @ msg)),
                     log_call Runtime_can_run w)
                | Inl e \<Rightarrow> (Inl e, log_call Runtime_can_run w)
                | Inr can_run_scan \<Rightarrow>
                    if can_run_scan = PyBool True
                    then
                      (case install_agents env agent_group (log_call Runtime_can_run w) of
                         (Inl e, w1) \<Rightarrow> (Inl e, w1)
                       | (Inr u, w1) \<Rightarrow>
                           (case runtime_scan env (si_title scan) agent_group scan_assets
                                   (log_call (Runtime_scan (si_title scan)) w1) of
                              Inl (OstorlabError msg) \<Rightarrow>
                                (Inl (GraphQLError
                                        (''Runtime encountered an error to run scan: '' @ msg)),
                                 log_call (Runtime_scan (si_title scan)) w1)
                            | Inl e \<Rightarrow> (Inl e, log_call (Runtime_scan (si_title scan)) w1)
                            | Inr (created_scan, w2) \<Rightarrow>
                                (Inr (Some (created_scan
                                       \<lparr>scan_agent_group_id := Some (si_agent_group_id scan)\<rparr>)),
                                 w2\<lparr>assets :=
                                       map (\<lambda>a. if asset_id a \<in> set (si_asset_ids scan)
                                                 then a\<lparr>asset_scan_id := Some (scan_id created_scan)\<rparr>
                                                 else a)
                                           (assets w2)\<rparr>)))
                    else (Inr None, log_call Runtime_can_run w))))"

text \<open>
  Example data for the closed instances below: a runtime whose backend is reachable, whose
  store lacks the agent \<open>agent/missing\<close> and whose \<open>can_run\<close> answers \<open>False\<close>, where a
  column of networks decodes to the networks and a column of links is no text; a group of
  three agents, the second of them missing from the store; a database with a scan, an
  agent group and a store asset; an input that declares no target.
\<close>

definition asset_input_none :: asset_input where
  "asset_input_none =
     \<lparr>android_store = None, android_file = None, ios_store = None, ios_file = None,
      link = None, ip = None\<rparr>"

definition example_runtime :: runtime_env where
  "example_runtime =
     \<lparr>upload_path = ''/uploads'',
      uuid4 = (\<lambda>n. replicate (Suc n) CHR ''u''),
      str_asset_input = (\<lambda>a. if a = asset_input_none then ''{}'' else ''{two targets}''),
      is_apk = (\<lambda>b. True), is_xapk = (\<lambda>b. False), is_aab = (\<lambda>b. False),
      ip_network = (\<lambda>t. Inr (4, t, ''32'')),
      json_loads_networks = (\<lambda>networks. Inr networks),
      json_loads_links = (\<lambda>links. Inl (TypeError ''the JSON object must be str'')),
      json_loads_url = (\<lambda>item. Inr (Some item, None)),
      arg_build = (\<lambda>a. Inr \<lparr>arg_name = aa_name a, arg_type = aa_type a, arg_value = aa_value a,
                              arg_description = aa_description a\<rparr>),
      runtime_stop = (\<lambda>sid w. (None, w)),
      runtime_install = None,
      install_agent = (\<lambda>k v. if k = ''agent/missing'' then Some AgentDetailsNotFound else None),
      can_run = (\<lambda>g. Inr (PyBool False)),
      runtime_scan = (\<lambda>t g a w. Inl (OstorlabError ''no scan''))\<rparr>"

definition example_agent :: "string \<Rightarrow> agent_settings" where
  "example_agent k = \<lparr>as_key = k, as_version = None, as_args = [], as_tracing_collector_url = None\<rparr>"

definition example_group :: agent_group_definition where
  "example_group =
     \<lparr>agd_name = ''web'', agd_description = ''web scan'',
      agd_agents = [example_agent ''agent/nmap'', example_agent ''agent/missing'',
                    example_agent ''agent/tsunami'']\<rparr>"

definition example_world :: world where
  "example_world =
     \<lparr>scans = [\<lparr>scan_id = 1, scan_title = ''first'', scan_agent_group_id = None\<rparr>],
      vulnerabilities = [],
      agent_groups = [\<lparr>ag_id = 1, ag_name = ''web'', ag_description = ''web scan'',
                        ag_agents = [\<lparr>agent_id = 1, agent_key = ''agent/nmap''\<rparr>]\<rparr>],
      agent_arguments = [],
      assets = [\<lparr>asset_id = 1, asset_scan_id = None,
                  asset_target = Android_store_row ''a.b.c'' ''fake_app''\<rparr>],
      files = Map.empty, uuid_count = 0, calls = []\<rparr>"

text \<open>
  The number of targets an input declares: the length of the list that \<open>_validate\<close>
  collects.
\<close>

definition target_count :: "asset_input \<Rightarrow> nat" where
  "target_count a =
     length (filter (\<lambda>declared. declared)
       [android_store a \<noteq> None, android_file a \<noteq> None, ios_store a \<noteq> None,
        ios_file a \<noteq> None, link a \<noteq> None, ip a \<noteq> None])"

text \<open>
  A row is the asset of an input when it carries the input's target of the row's kind:
  the names of a store application; for an uploaded file the input's package or bundle
  and a path in the upload directory, \<open>android_\<close> or \<open>ios_\<close> followed by one of the
  identifiers drawn from number \<open>lo\<close> up to (not including) number \<open>hi\<close>; the links as given;
  for networks one text for each address, \<open>host/mask\<close> or the host alone.  The file of a
  row of an uploaded file is kept in a file system when the row's path holds the input's
  content there.
\<close>

definition is_asset_of :: "runtime_env \<Rightarrow> nat \<Rightarrow> nat \<Rightarrow> asset_input \<Rightarrow> asset_target \<Rightarrow> bool" where
  "is_asset_of env lo hi a t =
     (case t of
        Android_store_row p n \<Rightarrow>
          android_store a = Some \<lparr>asi_package_name = p, asi_application_name = n\<rparr>
      | Android_file_row p file_path \<Rightarrow>
          (case android_file a of
             Some f \<Rightarrow>
               afi_package_name f = p
               \<and> (\<exists>n \<in> {lo..<hi}. file_path = upload_path env @ ''/android_'' @ uuid4 env n)
           | None \<Rightarrow> False)
      | Ios_store_row b n \<Rightarrow>
          ios_store a = Some \<lparr>isi_bundle_id = b, isi_application_name = n\<rparr>
      | Ios_file_row b file_path \<Rightarrow>
          (case ios_file a of
             Some f \<Rightarrow>
               ifi_bundle_id f = b
               \<and> (\<exists>n \<in> {lo..<hi}. file_path = upload_path env @ ''/ios_'' @ uuid4 env n)
           | None \<Rightarrow> False)
      | Urls_row ls \<Rightarrow> link a = Some ls
      | Network_row ns \<Rightarrow>
          (case ip a of
             Some ips \<Rightarrow>
               ns = map (\<lambda>i. case ip_mask i of
                                Some m \<Rightarrow> ip_host i @ ''/'' @ m
                              | None \<Rightarrow> ip_host i) ips
           | None \<Rightarrow> False)
      | Other_row x \<Rightarrow> False)"

definition file_of :: "(string \<rightharpoonup> string) \<Rightarrow> asset_input \<Rightarrow> asset_target \<Rightarrow> bool" where
  "file_of fs a t =
     (case t of
        Android_file_row p file_path \<Rightarrow>
          (case android_file a of Some f \<Rightarrow> fs file_path = Some (afi_file f) | None \<Rightarrow> False)
      | Ios_file_row b file_path \<Rightarrow>
          (case ios_file a of Some f \<Rightarrow> fs file_path = Some (ifi_file f) | None \<Rightarrow> False)
      | Android_store_row p n \<Rightarrow> True
      | Ios_store_row b n \<Rightarrow> True
      | Urls_row ls \<Rightarrow> True
      | Network_row ns \<Rightarrow> True
      | Other_row x \<Rightarrow> True)"

text \<open>
  Example inputs: a store application, an uploaded Android file, two networks (one with a
  mask), and an input that declares two targets.
\<close>

definition example_store_input :: asset_input where
  "example_store_input =
     asset_input_none
       \<lparr>android_store := Some \<lparr>asi_package_name = ''a.b.c'', asi_application_name = ''fake_app''\<rparr>\<rparr>"

definition example_file_input :: asset_input where
  "example_file_input =
     asset_input_none
       \<lparr>android_file := Some \<lparr>afi_file = ''apk bytes'', afi_package_name = ''d.e.f''\<rparr>\<rparr>"

definition example_ip_input :: asset_input where
  "example_ip_input =
     asset_input_none
       \<lparr>ip := Some [\<lparr>ip_host = ''8.8.8.0'', ip_mask = Some ''24''\<rparr>,
                    \<lparr>ip_host = ''10.0.0.1'', ip_mask = None\<rparr>]\<rparr>"

definition example_two_targets_input :: asset_input where
  "example_two_targets_input =
     asset_input_none
       \<lparr>android_store := Some \<lparr>asi_package_name = ''a.b.c'', asi_application_name = ''fake_app''\<rparr>,
        ios_store := Some \<lparr>isi_bundle_id = ''a.b.c'', isi_application_name = ''fake_app''\<rparr>\<rparr>"

section \<open>Properties of the aggregate risk rating\<close>

lemma getitem_name: "risk_ratings_order_getitem (name r) = Inr (rank r)"
  by (cases r) (simp_all add: risk_ratings_order_getitem_def rank_def RISK_RATINGS_ORDER_def)

lemma rank_table:
  "map rank [CRITICAL, HIGH, MEDIUM, LOW, POTENTIALLY, HARDENING, SECURE, IMPORTANT, INFO]
     = [8, 7, 6, 5, 4, 3, 2, 1, 0]"
  by (simp add: rank_def RISK_RATINGS_ORDER_def)

lemma rank_inj: "rank r = rank r' \<Longrightarrow> r = r'"
  by (cases r; cases r'; simp add: rank_def RISK_RATINGS_ORDER_def)

lemma rank_le_8: "rank r \<le> 8"
  by (cases r) (simp_all add: rank_def RISK_RATINGS_ORDER_def)

lemma lower_name:
  "map (\<lambda>r. lower (name r)) [CRITICAL, HIGH, MEDIUM, LOW, POTENTIALLY, HARDENING, SECURE, IMPORTANT, INFO]
     = [''critical'', ''high'', ''medium'', ''low'', ''potentially'', ''hardening'', ''secure'',
        ''important'', ''info'']"
  by code_simp

lemma lower_name_not_unknown: "lower (name r) \<noteq> ''unknown''"
  using lower_name by (cases r) simp_all

lemma max_from_greatest:
  "\<exists>m. max_from (\<lambda>x. Inr (g x)) best (g best) xs = Inr m \<and> m \<in> set (best # xs)
        \<and> (\<forall>y \<in> set (best # xs). g y \<le> g m)"
proof (induction xs arbitrary: best)
  case Nil
  show ?case by simp
next
  case (Cons x xs)
  show ?case
  proof (cases "g best < g x")
    case True
    from Cons.IH [of x] obtain m where
      m: "max_from (\<lambda>x. Inr (g x)) x (g x) xs = Inr m" "m \<in> set (x # xs)"
         "\<forall>y \<in> set (x # xs). g y \<le> g m"
      by blast
    from m(3) have "g x \<le> g m" by simp
    with True have "g best \<le> g m" by simp
    with m True show ?thesis by auto
  next
    case False
    from Cons.IH [of best] obtain m where
      m: "max_from (\<lambda>x. Inr (g x)) best (g best) xs = Inr m" "m \<in> set (best # xs)"
         "\<forall>y \<in> set (best # xs). g y \<le> g m"
      by blast
    from m(3) have "g best \<le> g m" by simp
    with False have "g x \<le> g m" by simp
    with m False show ?thesis by auto
  qed
qed

lemma py_max_greatest:
  assumes "xs \<noteq> []"
  shows "\<exists>m. py_max (\<lambda>x. Inr (g x)) xs = Inr m \<and> m \<in> set xs \<and> (\<forall>y \<in> set xs. g y \<le> g m)"
proof -
  from assms obtain x rest where xs: "xs = x # rest" by (cases xs) auto
  from max_from_greatest [of g x rest] show ?thesis
    by (simp add: py_max_def xs)
qed

lemma distinct_on_image: "f ` set (distinct_on f seen xs) = f ` set xs - set seen"
  by (induction xs arbitrary: seen) auto

lemma distinct_on_subset: "set (distinct_on f seen xs) \<subseteq> set xs"
  by (induction xs arbitrary: seen) auto

lemma risk_of_rows_empty: "risk_of_rows [] = Inr ''unknown''"
  by (simp add: risk_of_rows_def)

lemma risk_of_rows_greatest:
  assumes "rows \<noteq> []"
  shows "\<exists>r \<in> risk_rating ` set rows. risk_of_rows rows = Inr (lower (name r))
            \<and> (\<forall>r' \<in> risk_rating ` set rows. rank r' \<le> rank r)"
proof -
  from py_max_greatest [of rows "\<lambda>vuln. rank (risk_rating vuln)", OF assms]
  obtain m where m: "py_max (\<lambda>vuln. Inr (rank (risk_rating vuln))) rows = Inr m"
     "m \<in> set rows" "\<forall>y \<in> set rows. rank (risk_rating y) \<le> rank (risk_rating m)"
    by blast
  from assms m show ?thesis by (auto simp: risk_of_rows_def getitem_name)
qed

lemma risk_of_rows_cong:
  assumes "risk_rating ` set xs = risk_rating ` set ys"
  shows "risk_of_rows xs = risk_of_rows ys"
proof (cases "xs = []")
  case True
  with assms have "ys = []" by auto
  with True show ?thesis by simp
next
  case False
  with assms have ys: "ys \<noteq> []" by auto
  from risk_of_rows_greatest [OF False] obtain r where
    r: "r \<in> risk_rating ` set xs" "risk_of_rows xs = Inr (lower (name r))"
       "\<forall>r' \<in> risk_rating ` set xs. rank r' \<le> rank r" by blast
  from risk_of_rows_greatest [OF ys] obtain q where
    q: "q \<in> risk_rating ` set ys" "risk_of_rows ys = Inr (lower (name q))"
       "\<forall>r' \<in> risk_rating ` set ys. rank r' \<le> rank q" by blast
  from r(1) assms have "r \<in> risk_rating ` set ys" by simp
  with q(3) have "rank r \<le> rank q" by blast
  moreover from q(1) assms have "q \<in> risk_rating ` set xs" by simp
  with r(3) have "rank q \<le> rank r" by blast
  ultimately have "r = q" by (simp add: rank_inj)
  with r(2) q(2) show ?thesis by simp
qed

lemma distinct_rows_ratings:
  "risk_rating ` set (distinct_on risk_rating [] (filter (\<lambda>v. vuln_scan_id v = sid) vt))
     = reported_ratings vt sid"
  by (auto simp: distinct_on_image reported_ratings_def)

lemma compute_risk_rating_found:
  assumes "find (\<lambda>s. scan_id s = sid) st = Some s"
  shows "compute_risk_rating st vt sid
           = risk_of_rows (distinct_on risk_rating [] (filter (\<lambda>v. vuln_scan_id v = sid) vt))"
  using assms by (simp add: compute_risk_rating_def)

lemma compute_risk_rating_cong:
  assumes "reported_ratings vt sid = reported_ratings vt' sid"
  shows "compute_risk_rating st vt sid = compute_risk_rating st vt' sid"
proof (cases "find (\<lambda>s. scan_id s = sid) st")
  case None
  then show ?thesis by (simp add: compute_risk_rating_def)
next
  case (Some s)
  have "risk_of_rows (distinct_on risk_rating [] (filter (\<lambda>v. vuln_scan_id v = sid) vt))
      = risk_of_rows (distinct_on risk_rating [] (filter (\<lambda>v. vuln_scan_id v = sid) vt'))"
    by (rule risk_of_rows_cong) (simp add: distinct_rows_ratings assms)
  with Some show ?thesis by (simp add: compute_risk_rating_found)
qed

lemma reported_ratings_mset:
  "mset vt = mset vt' \<Longrightarrow> reported_ratings vt sid = reported_ratings vt' sid"
  using mset_eq_setD [of vt vt'] by (simp add: reported_ratings_def)

text \<open>
  Claim C1.  For a scan that exists and has at least one reported vulnerability, the
  computed rating is the lower-cased name of a reported rating whose rank in
  \<open>RISK_RATINGS_ORDER\<close> is greatest among the reported ratings; the table ranks CRITICAL 8
  down to INFO 0; any permutation of the vulnerability table gives the same result; and
  the reported ratings LOW, CRITICAL, MEDIUM aggregate to \<open>critical\<close> (the rank decides:
  the lexicographically greatest of the three names is MEDIUM).
\<close>

theorem compute_risk_rating_max_rank:
  "(find (\<lambda>s. scan_id s = sid) st \<noteq> None \<and> reported_ratings vt sid \<noteq> {} \<longrightarrow>
      (\<exists>r \<in> reported_ratings vt sid.
          compute_risk_rating st vt sid = Inr (lower (name r))
          \<and> (\<forall>r' \<in> reported_ratings vt sid. rank r' \<le> rank r)))
   \<and> (mset vt' = mset vt \<longrightarrow> compute_risk_rating st vt' sid = compute_risk_rating st vt sid)
   \<and> map rank [CRITICAL, HIGH, MEDIUM, LOW, POTENTIALLY, HARDENING, SECURE, IMPORTANT, INFO]
        = [8, 7, 6, 5, 4, 3, 2, 1, 0]
   \<and> compute_risk_rating [\<lparr>scan_id = sid, scan_title = t, scan_agent_group_id = g\<rparr>]
        [\<lparr>vuln_id = i, vuln_scan_id = sid, vuln_title = a, risk_rating = LOW\<rparr>,
         \<lparr>vuln_id = j, vuln_scan_id = sid, vuln_title = b, risk_rating = CRITICAL\<rparr>,
         \<lparr>vuln_id = k, vuln_scan_id = sid, vuln_title = c, risk_rating = MEDIUM\<rparr>] sid
        = Inr ''critical''"
proof (intro conjI impI)
  assume a: "find (\<lambda>s. scan_id s = sid) st \<noteq> None \<and> reported_ratings vt sid \<noteq> {}"
  then obtain s where s: "find (\<lambda>s. scan_id s = sid) st = Some s" by auto
  let ?rows = "distinct_on risk_rating [] (filter (\<lambda>v. vuln_scan_id v = sid) vt)"
  from a have "risk_rating ` set ?rows \<noteq> {}" by (simp only: distinct_rows_ratings) simp
  then have "?rows \<noteq> []" by auto
  from risk_of_rows_greatest [OF this]
  show "\<exists>r \<in> reported_ratings vt sid.
          compute_risk_rating st vt sid = Inr (lower (name r))
          \<and> (\<forall>r' \<in> reported_ratings vt sid. rank r' \<le> rank r)"
    by (simp only: distinct_rows_ratings compute_risk_rating_found [OF s])
next
  assume "mset vt' = mset vt"
  then show "compute_risk_rating st vt' sid = compute_risk_rating st vt sid"
    by (intro compute_risk_rating_cong reported_ratings_mset)
next
  show "map rank [CRITICAL, HIGH, MEDIUM, LOW, POTENTIALLY, HARDENING, SECURE, IMPORTANT, INFO]
        = [8, 7, 6, 5, 4, 3, 2, 1, 0]"
    by (rule rank_table)
next
  have "lower ''CRITICAL'' = ''critical''" by code_simp
  then show "compute_risk_rating [\<lparr>scan_id = sid, scan_title = t, scan_agent_group_id = g\<rparr>]
        [\<lparr>vuln_id = i, vuln_scan_id = sid, vuln_title = a, risk_rating = LOW\<rparr>,
         \<lparr>vuln_id = j, vuln_scan_id = sid, vuln_title = b, risk_rating = CRITICAL\<rparr>,
         \<lparr>vuln_id = k, vuln_scan_id = sid, vuln_title = c, risk_rating = MEDIUM\<rparr>] sid
        = Inr ''critical''"
    using rank_table
    by (simp add: compute_risk_rating_def risk_of_rows_def py_max_def getitem_name)
qed

theorem compute_risk_rating_max_rank_witness:
  "(\<exists>r \<in> reported_ratings
        [\<lparr>vuln_id = 1, vuln_scan_id = 7, vuln_title = ''xss'', risk_rating = HIGH\<rparr>,
         \<lparr>vuln_id = 2, vuln_scan_id = 7, vuln_title = ''banner'', risk_rating = INFO\<rparr>] 7.
      compute_risk_rating [\<lparr>scan_id = 7, scan_title = ''web'', scan_agent_group_id = None\<rparr>]
        [\<lparr>vuln_id = 1, vuln_scan_id = 7, vuln_title = ''xss'', risk_rating = HIGH\<rparr>,
         \<lparr>vuln_id = 2, vuln_scan_id = 7, vuln_title = ''banner'', risk_rating = INFO\<rparr>] 7
        = Inr (lower (name r))
      \<and> (\<forall>r' \<in> reported_ratings
        [\<lparr>vuln_id = 1, vuln_scan_id = 7, vuln_title = ''xss'', risk_rating = HIGH\<rparr>,
         \<lparr>vuln_id = 2, vuln_scan_id = 7, vuln_title = ''banner'', risk_rating = INFO\<rparr>] 7.
           rank r' \<le> rank r))
   \<and> compute_risk_rating [\<lparr>scan_id = 7, scan_title = ''web'', scan_agent_group_id = None\<rparr>]
        [\<lparr>vuln_id = 2, vuln_scan_id = 7, vuln_title = ''banner'', risk_rating = INFO\<rparr>,
         \<lparr>vuln_id = 1, vuln_scan_id = 7, vuln_title = ''xss'', risk_rating = HIGH\<rparr>] 7
      = compute_risk_rating [\<lparr>scan_id = 7, scan_title = ''web'', scan_agent_group_id = None\<rparr>]
        [\<lparr>vuln_id = 1, vuln_scan_id = 7, vuln_title = ''xss'', risk_rating = HIGH\<rparr>,
         \<lparr>vuln_id = 2, vuln_scan_id = 7, vuln_title = ''banner'', risk_rating = INFO\<rparr>] 7"
proof -
  let ?st = "[\<lparr>scan_id = 7, scan_title = ''web'', scan_agent_group_id = None\<rparr>]"
  let ?a = "\<lparr>vuln_id = 1, vuln_scan_id = 7, vuln_title = ''xss'', risk_rating = HIGH\<rparr>"
  let ?b = "\<lparr>vuln_id = 2, vuln_scan_id = 7, vuln_title = ''banner'', risk_rating = INFO\<rparr>"
  note T = compute_risk_rating_max_rank
    [where sid = 7 and st = ?st and vt = "[?a, ?b]" and vt' = "[?b, ?a]"]
  have "HIGH \<in> reported_ratings [?a, ?b] 7"
    by (simp add: reported_ratings_def)
  then have "reported_ratings [?a, ?b] 7 \<noteq> {}"
    by blast
  moreover have "find (\<lambda>s. scan_id s = 7) ?st \<noteq> None"
    by simp
  ultimately have h1: "find (\<lambda>s. scan_id s = 7) ?st \<noteq> None \<and> reported_ratings [?a, ?b] 7 \<noteq> {}"
    by (intro conjI)
  have h2: "mset [?b, ?a] = mset [?a, ?b]"
    by (simp only: mset.simps) (rule add_mset_commute)
  have p1: "\<exists>r \<in> reported_ratings [?a, ?b] 7.
      compute_risk_rating ?st [?a, ?b] 7 = Inr (lower (name r))
      \<and> (\<forall>r' \<in> reported_ratings [?a, ?b] 7. rank r' \<le> rank r)"
    using T [THEN conjunct1] h1 by (rule mp)
  have p2: "compute_risk_rating ?st [?b, ?a] 7 = compute_risk_rating ?st [?a, ?b] 7"
    using T [THEN conjunct2, THEN conjunct1] h2 by (rule mp)
  from p1 p2 show ?thesis by (rule conjI)
qed

text \<open>
  Claim C2.  When no vulnerability is reported for the scan, the computed rating is the
  string \<open>unknown\<close>, which is the rendering of no rating at all: every rating renders as
  its own lower-cased name, INFO (the lowest rank) as \<open>info\<close>.
\<close>

theorem compute_risk_rating_unknown:
  "((\<forall>v \<in> set vt. vuln_scan_id v \<noteq> sid) \<longrightarrow> compute_risk_rating st vt sid = Inr ''unknown'')
   \<and> (\<forall>r. lower (name r) \<noteq> ''unknown'' \<and> name r \<noteq> ''unknown'')
   \<and> lower (name INFO) = ''info'' \<and> rank INFO = 0"
proof (intro conjI impI allI)
  assume "\<forall>v \<in> set vt. vuln_scan_id v \<noteq> sid"
  then have "filter (\<lambda>v. vuln_scan_id v = sid) vt = []"
    by (induction vt) auto
  then show "compute_risk_rating st vt sid = Inr ''unknown''"
    by (simp add: compute_risk_rating_def risk_of_rows_def split: option.splits)
next
  fix r
  show "lower (name r) \<noteq> ''unknown''" by (rule lower_name_not_unknown)
  show "name r \<noteq> ''unknown''" by (cases r) simp_all
next
  show "lower (name INFO) = ''info''" using lower_name by simp
  show "rank INFO = 0" using rank_table by simp
qed

theorem compute_risk_rating_unknown_witness:
  "compute_risk_rating [\<lparr>scan_id = 7, scan_title = ''web'', scan_agent_group_id = None\<rparr>]
     [\<lparr>vuln_id = 1, vuln_scan_id = 3, vuln_title = ''xss'', risk_rating = HIGH\<rparr>] 7
     = Inr ''unknown''"
  using compute_risk_rating_unknown [where sid = 7 and st = "[\<lparr>scan_id = 7, scan_title = ''web'', scan_agent_group_id = None\<rparr>]"
      and vt = "[\<lparr>vuln_id = 1, vuln_scan_id = 3, vuln_title = ''xss'', risk_rating = HIGH\<rparr>]"]
  by simp

section \<open>Properties of the trace exporter\<close>

lemma lower_scheme_literals: "lower ''jaeger'' = ''jaeger''" "lower ''file'' = ''file''"
  by code_simp+

lemmas urlparse_eval =
  urlparse_def urlsplit_def remove_unsafe_bytes_def lstrip_c0_or_space_def py_find_def
  py_find_from_def is_ascii_alpha_def is_scheme_char_def uses_params_def splitnetloc_def
  split_once_def

lemma urlparse_docstring_url:
  "urlparse c ''jaeger:jaeger-host:8631''
     = Inr \<lparr>scheme = ''jaeger'', netloc = '''', path = ''jaeger-host:8631'', params = '''',
            query = '''', fragment = ''''\<rparr>"
  by (simp add: urlparse_eval lower_scheme_literals)

lemma urlparse_file_url:
  "urlparse c ''file:/tmp/trace.json''
     = Inr \<lparr>scheme = ''file'', netloc = '''', path = ''/tmp/trace.json'', params = '''',
            query = '''', fragment = ''''\<rparr>"
  by (simp add: urlparse_eval lower_scheme_literals)

lemma urlparse_slashes_url:
  "urlparse c ''jaeger://jaeger-host:8631''
     = Inr \<lparr>scheme = ''jaeger'', netloc = ''jaeger-host:8631'', path = '''', params = '''',
            query = '''', fragment = ''''\<rparr>"
  by (simp add: urlparse_eval lower_scheme_literals)

text \<open>
  With two slashes the host and port are the URL's \<open>netloc\<close>, and the Jaeger exporter is
  built; a \<open>file:\<close> URL builds the file exporter when the file opens; any other scheme
  raises \<open>NotImplementedError\<close>; and an exporter that is returned is the one its scheme names.
\<close>

lemma get_trace_exporter_slashes_url:
  "get_trace_exporter env (TraceExporter ''jaeger://jaeger-host:8631'')
     = (case py_int env ''8631'' of
          Inl e \<Rightarrow> Inl e
        | Inr port \<Rightarrow>
            Inr (JaegerExporter ''jaeger-host'' port True, TraceExporter ''jaeger://jaeger-host:8631''))"
  by (simp add: get_trace_exporter_def TraceExporter_def urlparse_slashes_url
      get_jaeger_exporter_def getitem_def split: sum.splits)

lemma get_trace_exporter_file_url:
  "get_trace_exporter env (TraceExporter ''file:/tmp/trace.json'')
     = (case open_w env ''/tmp/trace.json'' of
          Some e \<Rightarrow> Inl e
        | None \<Rightarrow>
            Inr (ConsoleSpanExporter ''/tmp/trace.json'',
                 \<lparr>te_tracing_collector_url = ''file:/tmp/trace.json'',
                    te_file = Some ''/tmp/trace.json''\<rparr>))"
  by (simp add: get_trace_exporter_def TraceExporter_def urlparse_file_url
      get_file_exporter_def Let_def split: option.splits)

lemma get_trace_exporter_unrecognized:
  assumes "urlparse (check_bracketed_host env) u = Inr p"
    and "scheme p \<noteq> ''jaeger''" and "scheme p \<noteq> ''file''"
  shows "get_trace_exporter env (TraceExporter u)
           = Inl (NotImplementedError (''Invalid tracer type '' @ scheme p))"
  using assms by (simp add: get_trace_exporter_def TraceExporter_def)

lemma get_trace_exporter_dispatch:
  assumes "get_trace_exporter env (TraceExporter u) = Inr (x, te)"
  shows "\<exists>p. urlparse (check_bracketed_host env) u = Inr p
           \<and> (scheme p = ''jaeger'' \<and> (\<exists>h n. x = JaegerExporter h n True)
              \<or> scheme p = ''file'' \<and> x = ConsoleSpanExporter (path p))"
  using assms
  by (auto simp: get_trace_exporter_def TraceExporter_def get_jaeger_exporter_def
      get_file_exporter_def Let_def split: sum.splits if_splits option.splits)

text \<open>
  Claim C5, at the URL of the method's own docstring.  \<open>urlparse\<close> finds the scheme
  \<open>jaeger\<close> and, the URL having no \<open>//\<close>, an empty \<open>netloc\<close>; the Jaeger branch is taken and
  \<open>netloc.split(':')[1]\<close> raises \<open>IndexError\<close>: no exporter is built, whatever the
  environment.
\<close>

theorem get_trace_exporter_docstring_url_raises:
  "get_trace_exporter env (TraceExporter ''jaeger:jaeger-host:8631'') = Inl IndexError"
  by (simp add: get_trace_exporter_def TraceExporter_def urlparse_docstring_url
      get_jaeger_exporter_def getitem_def)

section \<open>Properties of the mixin\<close>

lemma mixin_init_no_url:
  assumes "as_tracing_collector_url st = None \<or> as_tracing_collector_url st = Some ''''"
  shows "mixin_init env ad st
           = Inr \<lparr>self_name = ad_name ad, self_agent_settings = st,
                  self_tracing_collector_url = None, self_exporter = None,
                  self_span_processor = None, self_tracer = None\<rparr>"
  using assms by (auto simp: mixin_init_def)

lemma mixin_init_url:
  assumes "mixin_init env ad st = Inr self" and "self_tracing_collector_url self \<noteq> None"
  shows "\<exists>u x te. as_tracing_collector_url st = Some u \<and> u \<noteq> ''''
           \<and> get_trace_exporter env (TraceExporter u) = Inr (x, te)
           \<and> self = \<lparr>self_name = ad_name ad, self_agent_settings = st,
                  self_tracing_collector_url = Some u, self_exporter = Some te,
                  self_span_processor = Some (SimpleSpanProcessor x),
                  self_tracer = Some \<lparr>tp_service_name = as_key st,
                                       tp_span_processors = [SimpleSpanProcessor x]\<rparr>\<rparr>"
  using assms
  by (auto simp: mixin_init_def Let_def split: if_splits sum.splits option.splits)

lemma mixin_init_example:
  "mixin_init example_env example_definition (example_settings (Some ''file:/tmp/trace.json''))
     = Inr example_traced_agent"
  by (simp add: mixin_init_def get_trace_exporter_file_url example_env_def example_definition_def
      example_settings_def example_traced_agent_def Let_def)

text \<open>
  Claim C10.  Constructed with no tracing URL (absent, or the empty string), the object has
  no exporter, no span processor and no tracer, and \<open>force_flush_file_exporter\<close> raises
  \<open>AttributeError\<close>; on a constructed object \<open>force_flush_file_exporter\<close> returns only if
  the settings carried a non-empty tracing URL.
\<close>

theorem force_flush_needs_tracing_url:
  "((as_tracing_collector_url st = None \<or> as_tracing_collector_url st = Some '''') \<longrightarrow>
      (\<exists>self. mixin_init env ad st = Inr self
         \<and> self_tracing_collector_url self = None
         \<and> self_exporter self = None \<and> self_span_processor self = None
         \<and> self_tracer self = None
         \<and> force_flush_file_exporter self = Inl (AttributeError ''_span_processor'')))
   \<and> (mixin_init env ad st = Inr self \<and> force_flush_file_exporter self = Inr () \<longrightarrow>
        (\<exists>u. as_tracing_collector_url st = Some u \<and> u \<noteq> ''''))"
proof (intro conjI impI)
  assume "as_tracing_collector_url st = None \<or> as_tracing_collector_url st = Some ''''"
  from mixin_init_no_url [OF this, of env ad]
  show "\<exists>self. mixin_init env ad st = Inr self
         \<and> self_tracing_collector_url self = None
         \<and> self_exporter self = None \<and> self_span_processor self = None
         \<and> self_tracer self = None
         \<and> force_flush_file_exporter self = Inl (AttributeError ''_span_processor'')"
    by (simp add: force_flush_file_exporter_def)
next
  assume a: "mixin_init env ad st = Inr self \<and> force_flush_file_exporter self = Inr ()"
  show "\<exists>u. as_tracing_collector_url st = Some u \<and> u \<noteq> ''''"
  proof (cases "as_tracing_collector_url st = None \<or> as_tracing_collector_url st = Some ''''")
    case True
    from mixin_init_no_url [OF True, of env ad] a show ?thesis
      by (auto simp: force_flush_file_exporter_def)
  next
    case False
    then show ?thesis by auto
  qed
qed

theorem force_flush_needs_tracing_url_witness:
  "(\<exists>self. mixin_init example_env example_definition (example_settings (Some '''')) = Inr self
       \<and> force_flush_file_exporter self = Inl (AttributeError ''_span_processor''))
   \<and> (\<exists>self. mixin_init example_env example_definition (example_settings None) = Inr self
       \<and> force_flush_file_exporter self = Inl (AttributeError ''_span_processor''))
   \<and> (\<exists>self. mixin_init example_env example_definition
                 (example_settings (Some ''file:/tmp/trace.json'')) = Inr self
         \<and> force_flush_file_exporter self = Inr ())
   \<and> (\<exists>u. as_tracing_collector_url (example_settings (Some ''file:/tmp/trace.json'')) = Some u
         \<and> u \<noteq> '''')"
proof -
  have e: "as_tracing_collector_url (example_settings (Some '''')) = None
            \<or> as_tracing_collector_url (example_settings (Some '''')) = Some ''''"
    by (simp add: example_settings_def)
  have n: "as_tracing_collector_url (example_settings None) = None
            \<or> as_tracing_collector_url (example_settings None) = Some ''''"
    by (simp add: example_settings_def)
  have f: "force_flush_file_exporter example_traced_agent = Inr ()"
    by (simp add: force_flush_file_exporter_def example_traced_agent_def)
  note T = force_flush_needs_tracing_url
  from T [THEN conjunct1, rule_format, OF e]
  have 1: "\<exists>self. mixin_init example_env example_definition (example_settings (Some '''')) = Inr self
       \<and> force_flush_file_exporter self = Inl (AttributeError ''_span_processor'')"
    by blast
  from T [THEN conjunct1, rule_format, OF n]
  have 2: "\<exists>self. mixin_init example_env example_definition (example_settings None) = Inr self
       \<and> force_flush_file_exporter self = Inl (AttributeError ''_span_processor'')"
    by blast
  from mixin_init_example f
  have 3: "\<exists>self. mixin_init example_env example_definition
                 (example_settings (Some ''file:/tmp/trace.json'')) = Inr self
         \<and> force_flush_file_exporter self = Inr ()"
    by blast
  from T [THEN conjunct2, rule_format, OF conjI [OF mixin_init_example f]]
  have 4: "\<exists>u. as_tracing_collector_url (example_settings (Some ''file:/tmp/trace.json'')) = Some u
         \<and> u \<noteq> ''''" .
  from 1 2 3 4 show ?thesis by (intro conjI)
qed

lemma process_message_untraced:
  assumes "self_tracing_collector_url self = None"
  shows "process_message self handler selector message log
           = ((case handler selector message of Some e \<Rightarrow> Inl e | None \<Rightarrow> Inr ()),
              log @ [Super_process_message selector message])"
  using assms by (simp add: process_message_def super_process_message_def)

lemma emit_untraced:
  assumes "self_tracing_collector_url self = None"
  shows "emit self publish selector data log
           = ((case publish selector data of Some e \<Rightarrow> Inl e | None \<Rightarrow> Inr ()),
              log @ [Super_emit selector data])"
  using assms by (simp add: emit_def super_emit_def)

lemma process_message_traced_returns:
  assumes "self_tracing_collector_url self \<noteq> None" and "self_tracer self = Some tracer"
    and "handler selector message = None"
  shows "process_message self handler selector message log
           = (Inr (),
              log @ [Span_start ''process_message'', Super_process_message selector message,
                     Span_set_attribute ''agent.name'' (self_name self),
                     Span_set_attribute ''message.selector'' selector, Span_end])"
  using assms
  by (simp add: process_message_def start_as_current_span_def super_process_message_def)

lemma process_message_traced_raises:
  assumes "self_tracing_collector_url self \<noteq> None" and "self_tracer self = Some tracer"
    and "handler selector message = Some e"
  shows "process_message self handler selector message log
           = (Inl e,
              log @ [Span_start ''process_message'', Super_process_message selector message,
                     Span_record_exception e, Span_set_status_error, Span_end])"
  using assms
  by (simp add: process_message_def start_as_current_span_def super_process_message_def)

text \<open>
  Claim C4.  On an object whose tracing URL is \<open>None\<close> (which is what \<open>__init__\<close> builds
  from settings with no URL or an empty one), \<open>process_message\<close> does one thing: it calls
  the handler of the next class, once, and returns or raises as that call does; no span
  operation takes place.  \<open>emit\<close> does the same with the publish of the next class.
\<close>

theorem untraced_calls_pass_through:
  "(self_tracing_collector_url self = None \<longrightarrow>
      process_message self handler selector message log
        = ((case handler selector message of Some e \<Rightarrow> Inl e | None \<Rightarrow> Inr ()),
           log @ [Super_process_message selector message])
      \<and> emit self publish selector data log
        = ((case publish selector data of Some e \<Rightarrow> Inl e | None \<Rightarrow> Inr ()),
           log @ [Super_emit selector data]))
   \<and> (as_tracing_collector_url st = None \<or> as_tracing_collector_url st = Some '''' \<longrightarrow>
        (\<exists>obj. mixin_init env ad st = Inr obj \<and> self_tracing_collector_url obj = None))"
proof (intro conjI impI)
  assume "self_tracing_collector_url self = None"
  then show "process_message self handler selector message log
        = ((case handler selector message of Some e \<Rightarrow> Inl e | None \<Rightarrow> Inr ()),
           log @ [Super_process_message selector message])"
    by (rule process_message_untraced)
next
  assume "self_tracing_collector_url self = None"
  then show "emit self publish selector data log
        = ((case publish selector data of Some e \<Rightarrow> Inl e | None \<Rightarrow> Inr ()),
           log @ [Super_emit selector data])"
    by (rule emit_untraced)
next
  assume "as_tracing_collector_url st = None \<or> as_tracing_collector_url st = Some ''''"
  from mixin_init_no_url [OF this, of env ad]
  show "\<exists>obj. mixin_init env ad st = Inr obj \<and> self_tracing_collector_url obj = None"
    by simp
qed

theorem untraced_calls_pass_through_witness:
  "process_message example_untraced_agent returning_handler ''v3.asset.ip'' ''payload'' []
     = (Inr (), [Super_process_message ''v3.asset.ip'' ''payload'' :: string event])
   \<and> emit example_untraced_agent (\<lambda>selector data. None) ''v3.report.vulnerability'' ''finding'' []
     = (Inr (), [Super_emit ''v3.report.vulnerability'' ''finding''])
   \<and> process_message example_untraced_agent failing_handler ''v3.asset.ip'' ''payload'' []
     = (Inl (RuntimeError ''boom''), [Super_process_message ''v3.asset.ip'' ''payload'' :: string event])
   \<and> mixin_init example_env example_definition (example_settings (Some ''''))
     = Inr example_untraced_agent"
proof -
  have u: "self_tracing_collector_url example_untraced_agent = None"
    by (simp add: example_untraced_agent_def)
  note T = untraced_calls_pass_through [THEN conjunct1, rule_format, OF u]
  have 1: "process_message example_untraced_agent returning_handler ''v3.asset.ip'' ''payload'' []
     = (Inr (), [Super_process_message ''v3.asset.ip'' ''payload'' :: string event])"
    using T [THEN conjunct1, of returning_handler "''v3.asset.ip''" "''payload''" "[]"]
    by (simp add: returning_handler_def)
  have 2: "emit example_untraced_agent (\<lambda>selector data. None) ''v3.report.vulnerability'' ''finding'' []
     = (Inr (), [Super_emit ''v3.report.vulnerability'' ''finding''])"
    using T [THEN conjunct2, of "\<lambda>selector data. None" "''v3.report.vulnerability''" "''finding''" "[]"]
    by simp
  have 3: "process_message example_untraced_agent failing_handler ''v3.asset.ip'' ''payload'' []
     = (Inl (RuntimeError ''boom''), [Super_process_message ''v3.asset.ip'' ''payload'' :: string event])"
    using T [THEN conjunct1, of failing_handler "''v3.asset.ip''" "''payload''" "[]"]
    by (simp add: failing_handler_def)
  have 4: "mixin_init example_env example_definition (example_settings (Some ''''))
     = Inr example_untraced_agent"
    by (simp add: mixin_init_no_url example_settings_def example_untraced_agent_def
        example_definition_def)
  from 1 2 3 4 show ?thesis by (intro conjI)
qed

lemma emit_traced_raises:
  assumes "self_tracing_collector_url self \<noteq> None" and "self_tracer self = Some tracer"
    and "publish selector data = Some e"
  shows "emit self publish selector data log
           = (Inl e,
              log @ [Span_start ''emit_message'', Super_emit selector data,
                     Span_record_exception e, Span_set_status_error, Span_end])"
  using assms
  by (simp add: emit_def start_as_current_span_def super_emit_def)

lemma emit_traced_returns:
  assumes "self_tracing_collector_url self \<noteq> None" and "self_tracer self = Some tracer"
    and "publish selector data = None"
  shows "emit self publish selector data log
           = (Inr (),
              log @ [Span_start ''emit_message'', Super_emit selector data,
                     Span_set_attribute ''agent.name'' (self_name self),
                     Span_set_attribute ''message.selector'' selector, Span_end])"
  using assms
  by (simp add: emit_def start_as_current_span_def super_emit_def)

text \<open>
  Claim C3, at a handler that raises.  The agent built by \<open>__init__\<close> for a file exporter
  processes a message.  When the handler returns, the span carries \<open>agent.name\<close> and
  \<open>message.selector\<close>.  When the handler raises, the span is started, the handler is
  called, the exception is recorded on the span, the span is ended and the exception
  propagates, but the two \<open>set_attribute\<close> statements, which follow the handler call in
  the body of the \<open>with\<close> statement, are never reached: the failed span carries neither
  attribute, although both values were known before the call.
\<close>

theorem process_message_raising_handler_sets_no_attribute:
  "mixin_init example_env example_definition (example_settings (Some ''file:/tmp/trace.json''))
     = Inr example_traced_agent
   \<and> process_message example_traced_agent failing_handler ''v3.asset.ip'' ''payload'' []
     = (Inl (RuntimeError ''boom''),
        [Span_start ''process_message'', Super_process_message ''v3.asset.ip'' ''payload'',
         Span_record_exception (RuntimeError ''boom''), Span_set_status_error,
         Span_end :: string event])
   \<and> Span_set_attribute ''agent.name'' ''demo''
       \<notin> set (snd (process_message example_traced_agent failing_handler
                       ''v3.asset.ip'' ''payload'' ([] :: string event list)))
   \<and> Span_set_attribute ''message.selector'' ''v3.asset.ip''
       \<notin> set (snd (process_message example_traced_agent failing_handler
                       ''v3.asset.ip'' ''payload'' ([] :: string event list)))
   \<and> process_message example_traced_agent returning_handler ''v3.asset.ip'' ''payload'' []
     = (Inr (),
        [Span_start ''process_message'', Super_process_message ''v3.asset.ip'' ''payload'',
         Span_set_attribute ''agent.name'' ''demo'',
         Span_set_attribute ''message.selector'' ''v3.asset.ip'', Span_end :: string event])"
proof -
  have r: "process_message example_traced_agent failing_handler ''v3.asset.ip'' ''payload'' []
     = (Inl (RuntimeError ''boom''),
        [Span_start ''process_message'', Super_process_message ''v3.asset.ip'' ''payload'',
         Span_record_exception (RuntimeError ''boom''), Span_set_status_error,
         Span_end :: string event])"
    using process_message_traced_raises
      [of example_traced_agent _ failing_handler "''v3.asset.ip''" "''payload''"
          "RuntimeError ''boom''" "[]"]
    by (simp add: example_traced_agent_def failing_handler_def)
  have s: "process_message example_traced_agent returning_handler ''v3.asset.ip'' ''payload'' []
     = (Inr (),
        [Span_start ''process_message'', Super_process_message ''v3.asset.ip'' ''payload'',
         Span_set_attribute ''agent.name'' ''demo'',
         Span_set_attribute ''message.selector'' ''v3.asset.ip'', Span_end :: string event])"
    using process_message_traced_returns
      [of example_traced_agent _ returning_handler "''v3.asset.ip''" "''payload''" "[]"]
    by (simp add: example_traced_agent_def returning_handler_def)
  show ?thesis
    by (simp only: r s mixin_init_example) simp
qed

text \<open>
  The same holds of every object built with a tracing URL, every handler and every
  message: these are the events of \<open>process_message\<close>, and those of \<open>emit\<close> follow the same
  pattern under the span name \<open>emit_message\<close>.
\<close>

lemma process_message_traced_events:
  "mixin_init env ad st = Inr self \<and> as_tracing_collector_url st = Some u \<and> u \<noteq> '''' \<longrightarrow>
     process_message self handler selector message log
       = (case handler selector message of
            None \<Rightarrow>
              (Inr (),
               log @ [Span_start ''process_message'', Super_process_message selector message,
                      Span_set_attribute ''agent.name'' (ad_name ad),
                      Span_set_attribute ''message.selector'' selector, Span_end])
          | Some e \<Rightarrow>
              (Inl e,
               log @ [Span_start ''process_message'', Super_process_message selector message,
                      Span_record_exception e, Span_set_status_error, Span_end]))"
proof
  assume a: "mixin_init env ad st = Inr self \<and> as_tracing_collector_url st = Some u \<and> u \<noteq> ''''"
  then have url: "self_tracing_collector_url self \<noteq> None"
    by (auto simp: mixin_init_def Let_def split: sum.splits)
  from mixin_init_url [OF _ url] a obtain tracer where
    tracer: "self_tracer self = Some tracer" and nm: "self_name self = ad_name ad"
    by fastforce
  show "process_message self handler selector message log
       = (case handler selector message of
            None \<Rightarrow>
              (Inr (),
               log @ [Span_start ''process_message'', Super_process_message selector message,
                      Span_set_attribute ''agent.name'' (ad_name ad),
                      Span_set_attribute ''message.selector'' selector, Span_end])
          | Some e \<Rightarrow>
              (Inl e,
               log @ [Span_start ''process_message'', Super_process_message selector message,
                      Span_record_exception e, Span_set_status_error, Span_end]))"
  proof (cases "handler selector message")
    case None
    from process_message_traced_returns
      [where handler = handler and selector = selector and message = message,
        OF url tracer None] nm None
    show ?thesis by simp
  next
    case (Some e)
    from process_message_traced_raises
      [where handler = handler and selector = selector and message = message,
        OF url tracer Some] Some
    show ?thesis by simp
  qed
qed

lemma process_message_traced_example:
  "process_message example_traced_agent returning_handler ''v3.asset.ip'' ''payload'' []
     = (Inr (),
        [Span_start ''process_message'', Super_process_message ''v3.asset.ip'' ''payload'',
         Span_set_attribute ''agent.name'' ''demo'',
         Span_set_attribute ''message.selector'' ''v3.asset.ip'', Span_end :: string event])"
proof -
  have h: "mixin_init example_env example_definition
             (example_settings (Some ''file:/tmp/trace.json'')) = Inr example_traced_agent
           \<and> as_tracing_collector_url (example_settings (Some ''file:/tmp/trace.json''))
               = Some ''file:/tmp/trace.json''
           \<and> ''file:/tmp/trace.json'' \<noteq> ''''"
    using mixin_init_example by (simp add: example_settings_def)
  from process_message_traced_events [rule_format, OF h,
      of returning_handler "''v3.asset.ip''" "''payload''" "[]"]
  show ?thesis
    by (simp add: returning_handler_def example_definition_def)
qed

section \<open>Properties of the queries and mutations\<close>

subsection \<open>Unknown ids\<close>

lemma find_none: "(\<forall>x \<in> set xs. \<not> P x) \<Longrightarrow> find P xs = None"
  by (induction xs) auto

lemma filter_none: "(\<forall>x \<in> set xs. \<not> P x) \<Longrightarrow> filter P xs = []"
  by (induction xs) auto

text \<open>
  Claim C6.  For a scan id that no row of the scan table has, \<open>stopScan\<close> and the \<open>scan\<close>
  query raise \<open>GraphQLError("Scan not found.")\<close>; for an agent-group id that no row has,
  \<open>deleteAgentGroup\<close> raises \<open>GraphQLError("AgentGroup not found.")\<close>.  In each case the
  one look-up is all that happened: the runtime is not called, no row is changed, and
  nothing is tried again.
\<close>

theorem unknown_id_not_found:
  "((\<forall>s \<in> set (scans w). scan_id s \<noteq> sid) \<longrightarrow>
      stop_scan_mutate env sid w
        = (Inl (GraphQLError ''Scan not found.''), w\<lparr>calls := calls w @ [Query_scan sid]\<rparr>)
      \<and> resolve_scan sid w
        = (Inl (GraphQLError ''Scan not found.''), w\<lparr>calls := calls w @ [Query_scan sid]\<rparr>))
   \<and> ((\<forall>g \<in> set (agent_groups w). ag_id g \<noteq> gid) \<longrightarrow>
      delete_agent_group_mutate gid w
        = (Inl (GraphQLError ''AgentGroup not found.''),
           w\<lparr>calls := calls w @ [Query_agent_group gid]\<rparr>))"
proof (intro conjI impI)
  assume "\<forall>s \<in> set (scans w). scan_id s \<noteq> sid"
  then have none: "find (\<lambda>s. scan_id s = sid) (scans w) = None"
    by (intro find_none) simp
  from none show "stop_scan_mutate env sid w
        = (Inl (GraphQLError ''Scan not found.''), w\<lparr>calls := calls w @ [Query_scan sid]\<rparr>)"
    by (simp add: stop_scan_mutate_def log_call_def)
  from none show "resolve_scan sid w
        = (Inl (GraphQLError ''Scan not found.''), w\<lparr>calls := calls w @ [Query_scan sid]\<rparr>)"
    by (simp add: resolve_scan_def log_call_def)
next
  assume "\<forall>g \<in> set (agent_groups w). ag_id g \<noteq> gid"
  then have "filter (\<lambda>g. ag_id g = gid) (agent_groups w) = []"
    by (intro filter_none) simp
  then show "delete_agent_group_mutate gid w
        = (Inl (GraphQLError ''AgentGroup not found.''),
           w\<lparr>calls := calls w @ [Query_agent_group gid]\<rparr>)"
    by (simp add: delete_agent_group_mutate_def log_call_def)
qed

theorem unknown_id_not_found_witness:
  "stop_scan_mutate example_runtime 5 example_world
     = (Inl (GraphQLError ''Scan not found.''), example_world\<lparr>calls := [Query_scan 5]\<rparr>)
   \<and> resolve_scan 5 example_world
     = (Inl (GraphQLError ''Scan not found.''), example_world\<lparr>calls := [Query_scan 5]\<rparr>)
   \<and> delete_agent_group_mutate 9 example_world
     = (Inl (GraphQLError ''AgentGroup not found.''),
        example_world\<lparr>calls := [Query_agent_group 9]\<rparr>)"
proof -
  have s: "\<forall>s \<in> set (scans example_world). scan_id s \<noteq> 5"
    by (simp add: example_world_def)
  have g: "\<forall>g \<in> set (agent_groups example_world). ag_id g \<noteq> 9"
    by (simp add: example_world_def)
  have c: "calls example_world = []"
    by (simp add: example_world_def)
  note T = unknown_id_not_found [where w = example_world and sid = 5 and gid = 9
      and env = example_runtime]
  from T [THEN conjunct1, THEN mp, OF s] T [THEN conjunct2, THEN mp, OF g]
  show ?thesis by (simp add: c)
qed

subsection \<open>Installing the agents of a group\<close>

lemma install_each_not_found_is_silent:
  assumes "\<forall>ag \<in> set ags. install_agent env (as_key ag) (as_version ag) = None
              \<or> install_agent env (as_key ag) (as_version ag) = Some AgentDetailsNotFound"
  shows "install_each env ags w
           = (None, w\<lparr>calls := calls w @ map (\<lambda>ag. Install_agent (as_key ag) (as_version ag)) ags\<rparr>)"
  using assms
proof (induction ags arbitrary: w)
  case Nil
  show ?case by simp
next
  case (Cons ag rest)
  from Cons.prems have rest: "\<forall>ag \<in> set rest. install_agent env (as_key ag) (as_version ag) = None
              \<or> install_agent env (as_key ag) (as_version ag) = Some AgentDetailsNotFound"
    by simp
  from Cons.prems have "install_agent env (as_key ag) (as_version ag) = None
      \<or> install_agent env (as_key ag) (as_version ag) = Some AgentDetailsNotFound"
    by simp
  then show ?case
    by (auto simp: Cons.IH [OF rest] log_call_def)
qed

lemma install_agents_not_found_is_silent:
  assumes "runtime_install env = None"
    and "\<forall>ag \<in> set (agd_agents g). install_agent env (as_key ag) (as_version ag) = None
              \<or> install_agent env (as_key ag) (as_version ag) = Some AgentDetailsNotFound"
  shows "install_agents env g w
           = (Inr (),
              w\<lparr>calls := calls w @ Runtime_install
                   # map (\<lambda>ag. Install_agent (as_key ag) (as_version ag)) (agd_agents g)\<rparr>)"
  by (simp add: install_agents_def assms(1) install_each_not_found_is_silent [OF assms(2)]
      log_call_def)

lemma install_agents_backend_unreachable:
  assumes "runtime_install env = Some (HTTPError msg)"
  shows "install_agents env g w
           = (Inl (GraphQLError (''Could not install the agents: '' @ msg)),
              w\<lparr>calls := calls w @ [Runtime_install]\<rparr>)"
  by (simp add: install_agents_def assms log_call_def)

text \<open>
  Claim C7, at a group whose second agent is not on the store.  The installer is called
  for all three agents, so the failure does not stop the siblings; but the call returns
  \<open>None\<close> with no error raised and no key reported: what it returns is what it returns
  when every agent installs.
\<close>

theorem install_agents_drops_missing_agent:
  "install_agent example_runtime ''agent/missing'' None = Some AgentDetailsNotFound
   \<and> install_agents example_runtime example_group w
     = (Inr (),
        w\<lparr>calls := calls w @ [Runtime_install, Install_agent ''agent/nmap'' None,
                               Install_agent ''agent/missing'' None,
                               Install_agent ''agent/tsunami'' None]\<rparr>)
   \<and> fst (install_agents example_runtime example_group w)
     = fst (install_agents (example_runtime\<lparr>install_agent := (\<lambda>k v. None)\<rparr>) example_group w)"
  by (simp add: install_agents_def example_runtime_def example_group_def example_agent_def
      log_call_def)

subsection \<open>A scan that cannot run\<close>

text \<open>
  An exception of the decoder of a links or networks column leaves \<open>_prepare_assets\<close>, and
  so does \<open>runScan\<close>, before \<open>can_run\<close> is called.
\<close>

lemma row_scan_assets_decoder_error:
  "json_loads_links env ls = Inl e \<Longrightarrow> asset_target row = Urls_row ls
     \<Longrightarrow> row_scan_assets env w row = Inl e"
  "json_loads_networks env ns = Inl e \<Longrightarrow> asset_target row = Network_row ns
     \<Longrightarrow> row_scan_assets env w row = Inl e"
  by (simp_all add: row_scan_assets_def)

lemma run_scan_prepare_assets_error:
  "prepare_agent_group env w (si_agent_group_id scan) = Inr agent_group
     \<Longrightarrow> prepare_assets env w (si_asset_ids scan) = Inl e
     \<Longrightarrow> run_scan_mutate env scan w = (Inl e, w)"
  by (simp add: run_scan_mutate_def)

text \<open>
  Claim C9.  When the agent group and the assets are found and \<open>can_run\<close> returns a value
  that is not \<open>True\<close>, \<open>runScan\<close> returns Python's \<open>None\<close>: no error is raised, and beyond
  the call of \<open>can_run\<close> nothing happened: nothing is installed, the runtime creates no
  scan, and no row is changed.
\<close>

theorem run_scan_not_runnable_returns_none:
  "prepare_agent_group env w (si_agent_group_id scan) = Inr agent_group
   \<and> prepare_assets env w (si_asset_ids scan) = Inr scan_assets
   \<and> can_run env agent_group = Inr v \<and> v \<noteq> PyBool True \<longrightarrow>
     run_scan_mutate env scan w = (Inr None, w\<lparr>calls := calls w @ [Runtime_can_run]\<rparr>)"
  by (simp add: run_scan_mutate_def log_call_def)

theorem run_scan_not_runnable_returns_none_witness:
  "run_scan_mutate example_runtime
     \<lparr>si_title = ''nightly'', si_asset_ids = [1], si_agent_group_id = 1\<rparr> example_world
     = (Inr None, example_world\<lparr>calls := [Runtime_can_run]\<rparr>)"
proof -
  let ?scan = "\<lparr>si_title = ''nightly'', si_asset_ids = [1], si_agent_group_id = 1\<rparr>"
  let ?group = "\<lparr>agd_name = ''web'', agd_description = ''web scan'',
                 agd_agents = [example_agent ''agent/nmap'']\<rparr>"
  have g: "prepare_agent_group example_runtime example_world (si_agent_group_id ?scan) = Inr ?group"
    by (simp add: prepare_agent_group_def example_world_def example_agent_def example_runtime_def)
  have a: "prepare_assets example_runtime example_world (si_asset_ids ?scan)
             = Inr [AndroidStore ''a.b.c'']"
    by (simp add: prepare_assets_def row_scan_assets_def example_world_def)
  have c: "can_run example_runtime ?group = Inr (PyBool False)"
    by (simp add: example_runtime_def)
  have n: "PyBool False \<noteq> PyBool True"
    by simp
  have e: "calls example_world = []"
    by (simp add: example_world_def)
  from run_scan_not_runnable_returns_none [rule_format, OF conjI [OF g conjI [OF a conjI [OF c n]]]]
  show ?thesis by (simp add: e)
qed

subsection \<open>Creating assets\<close>

lemma validate_target_count:
  "validate env a =
     (if target_count a = 0
      then Some (''Asset '' @ str_asset_input env a @ '' input is missing target.'')
      else if 2 \<le> target_count a
      then Some (''Single target input must be defined for asset '' @ str_asset_input env a @ ''.'')
      else None)"
  by (simp add: validate_def target_count_def Let_def)

lemma create_and_append_row:
  "\<exists>row w'. create_and_append t (created, w) = (created @ [row], w')
       \<and> assets w' = assets w @ [row] \<and> asset_target row = t
       \<and> files w' = files w \<and> uuid_count w' = uuid_count w"
  by (simp add: create_and_append_def create_asset_def Let_def)

lemma write_upload_eq:
  "write_upload env prefix content w
     = (upload_path env @ ''/'' @ prefix @ ''_'' @ uuid4 env (uuid_count w),
        w\<lparr>files := (files w)(upload_path env @ ''/'' @ prefix @ ''_'' @ uuid4 env (uuid_count w)
                                \<mapsto> content),
          uuid_count := Suc (uuid_count w)\<rparr>)"
  by (simp add: write_upload_def Let_def)

text \<open>
  One valid input: one row is appended; the files that differ afterwards are uploads
  under identifiers drawn in this step.
\<close>

lemma create_targets_valid:
  assumes "validate env a = None"
  shows "\<exists>row w1. create_targets env a (created, w) = (created @ [row], w1)
           \<and> assets w1 = assets w @ [row]
           \<and> uuid_count w \<le> uuid_count w1
           \<and> (\<forall>p. files w1 p \<noteq> files w p \<longrightarrow>
                 (\<exists>n. uuid_count w \<le> n \<and> n < uuid_count w1
                    \<and> (p = upload_path env @ ''/android_'' @ uuid4 env n
                       \<or> p = upload_path env @ ''/ios_'' @ uuid4 env n)))
           \<and> is_asset_of env (uuid_count w) (uuid_count w1) a (asset_target row)
           \<and> file_of (files w1) a (asset_target row)"
proof -
  from assms consider
      (astore) s where "android_store a = Some s" "android_file a = None" "ios_store a = None"
        "ios_file a = None" "link a = None" "ip a = None"
    | (afile) f where "android_store a = None" "android_file a = Some f" "ios_store a = None"
        "ios_file a = None" "link a = None" "ip a = None"
    | (istore) s where "android_store a = None" "android_file a = None" "ios_store a = Some s"
        "ios_file a = None" "link a = None" "ip a = None"
    | (ifile) f where "android_store a = None" "android_file a = None" "ios_store a = None"
        "ios_file a = Some f" "link a = None" "ip a = None"
    | (links) ls where "android_store a = None" "android_file a = None" "ios_store a = None"
        "ios_file a = None" "link a = Some ls" "ip a = None"
    | (ips) ns where "android_store a = None" "android_file a = None" "ios_store a = None"
        "ios_file a = None" "link a = None" "ip a = Some ns"
    by (auto simp: validate_def Let_def split: if_splits)
  then show ?thesis
  proof cases
    case astore
    from create_and_append_row
      [of "Android_store_row (asi_package_name s) (asi_application_name s)" created w]
    show ?thesis by (auto simp: create_targets_def astore is_asset_of_def file_of_def)
  next
    case afile
    let ?p = "upload_path env @ ''/android_'' @ uuid4 env (uuid_count w)"
    let ?w = "w\<lparr>files := (files w)(?p \<mapsto> afi_file f), uuid_count := Suc (uuid_count w)\<rparr>"
    have u: "write_upload env ''android'' (afi_file f) w = (?p, ?w)"
      by (simp add: write_upload_eq)
    from create_and_append_row [of "Android_file_row (afi_package_name f) ?p" created ?w]
    obtain row w1 where
      r: "create_and_append (Android_file_row (afi_package_name f) ?p) (created, ?w)
            = (created @ [row], w1)"
         "assets w1 = assets w @ [row]"
         "asset_target row = Android_file_row (afi_package_name f) ?p"
         "files w1 = (files w)(?p \<mapsto> afi_file f)" "uuid_count w1 = Suc (uuid_count w)"
      by auto
    from r(1) have "create_targets env a (created, w) = (created @ [row], w1)"
      by (simp add: create_targets_def afile u)
    moreover have "\<forall>p. files w1 p \<noteq> files w p \<longrightarrow>
                 (\<exists>n. uuid_count w \<le> n \<and> n < uuid_count w1
                    \<and> (p = upload_path env @ ''/android_'' @ uuid4 env n
                       \<or> p = upload_path env @ ''/ios_'' @ uuid4 env n))"
      using r(4,5) by (auto split: if_splits)
    moreover have "is_asset_of env (uuid_count w) (uuid_count w1) a (asset_target row)"
      by (simp add: is_asset_of_def r(3,5) afile)
    moreover have "file_of (files w1) a (asset_target row)"
      by (simp add: file_of_def r(3,4) afile)
    ultimately show ?thesis using r(2,5) by auto
  next
    case istore
    from create_and_append_row
      [of "Ios_store_row (isi_bundle_id s) (isi_application_name s)" created w]
    show ?thesis by (auto simp: create_targets_def istore is_asset_of_def file_of_def)
  next
    case ifile
    let ?p = "upload_path env @ ''/ios_'' @ uuid4 env (uuid_count w)"
    let ?w = "w\<lparr>files := (files w)(?p \<mapsto> ifi_file f), uuid_count := Suc (uuid_count w)\<rparr>"
    have u: "write_upload env ''ios'' (ifi_file f) w = (?p, ?w)"
      by (simp add: write_upload_eq)
    from create_and_append_row [of "Ios_file_row (ifi_bundle_id f) ?p" created ?w]
    obtain row w1 where
      r: "create_and_append (Ios_file_row (ifi_bundle_id f) ?p) (created, ?w)
            = (created @ [row], w1)"
         "assets w1 = assets w @ [row]"
         "asset_target row = Ios_file_row (ifi_bundle_id f) ?p"
         "files w1 = (files w)(?p \<mapsto> ifi_file f)" "uuid_count w1 = Suc (uuid_count w)"
      by auto
    from r(1) have "create_targets env a (created, w) = (created @ [row], w1)"
      by (simp add: create_targets_def ifile u)
    moreover have "\<forall>p. files w1 p \<noteq> files w p \<longrightarrow>
                 (\<exists>n. uuid_count w \<le> n \<and> n < uuid_count w1
                    \<and> (p = upload_path env @ ''/android_'' @ uuid4 env n
                       \<or> p = upload_path env @ ''/ios_'' @ uuid4 env n))"
      using r(4,5) by (auto split: if_splits)
    moreover have "is_asset_of env (uuid_count w) (uuid_count w1) a (asset_target row)"
      by (simp add: is_asset_of_def r(3,5) ifile)
    moreover have "file_of (files w1) a (asset_target row)"
      by (simp add: file_of_def r(3,4) ifile)
    ultimately show ?thesis using r(2,5) by auto
  next
    case links
    from create_and_append_row [of "Urls_row ls" created w]
    show ?thesis by (auto simp: create_targets_def links is_asset_of_def file_of_def)
  next
    case ips
    from create_and_append_row [of "Network_row (map network_text ns)" created w]
    show ?thesis
      by (auto simp: create_targets_def ips is_asset_of_def file_of_def network_text_def)
  qed
qed

lemma is_asset_of_mono:
  assumes "is_asset_of env lo hi a t" and "lo' \<le> lo" and "hi \<le> hi'"
  shows "is_asset_of env lo' hi' a t"
proof -
  from assms(2,3) have "{lo..<hi} \<subseteq> {lo'..<hi'}" by auto
  with assms(1) show ?thesis
    by (cases t) (auto simp: is_asset_of_def split: option.splits)
qed

lemma file_of_kept:
  assumes "inj (uuid4 env)" and "is_asset_of env lo hi a t" and "file_of fs a t"
    and "\<forall>p. fs' p \<noteq> fs p \<longrightarrow>
           (\<exists>n. hi \<le> n \<and> n < hi'
              \<and> (p = upload_path env @ ''/android_'' @ uuid4 env n
                 \<or> p = upload_path env @ ''/ios_'' @ uuid4 env n))"
  shows "file_of fs' a t"
proof -
  have same: "fs' (upload_path env @ ''/android_'' @ uuid4 env n)
                = fs (upload_path env @ ''/android_'' @ uuid4 env n)"
             "fs' (upload_path env @ ''/ios_'' @ uuid4 env n)
                = fs (upload_path env @ ''/ios_'' @ uuid4 env n)"
    if "n < hi" for n
  proof -
    show "fs' (upload_path env @ ''/android_'' @ uuid4 env n)
            = fs (upload_path env @ ''/android_'' @ uuid4 env n)"
    proof (rule ccontr)
      assume "fs' (upload_path env @ ''/android_'' @ uuid4 env n)
                \<noteq> fs (upload_path env @ ''/android_'' @ uuid4 env n)"
      with assms(4) obtain k where k: "hi \<le> k"
        "upload_path env @ ''/android_'' @ uuid4 env n = upload_path env @ ''/android_'' @ uuid4 env k
         \<or> upload_path env @ ''/android_'' @ uuid4 env n = upload_path env @ ''/ios_'' @ uuid4 env k"
        by blast
      from k(2) have "uuid4 env n = uuid4 env k" by simp
      with assms(1) have "n = k" by (simp add: inj_eq)
      with k(1) that show False by simp
    qed
    show "fs' (upload_path env @ ''/ios_'' @ uuid4 env n)
            = fs (upload_path env @ ''/ios_'' @ uuid4 env n)"
    proof (rule ccontr)
      assume "fs' (upload_path env @ ''/ios_'' @ uuid4 env n)
                \<noteq> fs (upload_path env @ ''/ios_'' @ uuid4 env n)"
      with assms(4) obtain k where k: "hi \<le> k"
        "upload_path env @ ''/ios_'' @ uuid4 env n = upload_path env @ ''/android_'' @ uuid4 env k
         \<or> upload_path env @ ''/ios_'' @ uuid4 env n = upload_path env @ ''/ios_'' @ uuid4 env k"
        by blast
      from k(2) have "uuid4 env n = uuid4 env k" by simp
      with assms(1) have "n = k" by (simp add: inj_eq)
      with k(1) that show False by simp
    qed
  qed
  from assms(2,3) same show ?thesis
    by (cases t) (auto simp: is_asset_of_def file_of_def split: option.splits)
qed

text \<open>
  The whole loop: the errors are the messages of the invalid inputs in order, and the rows
  appended are those of the valid inputs in order.
\<close>

lemma create_assets_loop_effect:
  "\<exists>rows w'. create_assets_loop env inputs created errors w
        = (created @ rows, errors @ List.map_filter (validate env) inputs, w')
      \<and> assets w' = assets w @ rows
      \<and> uuid_count w \<le> uuid_count w'
      \<and> (\<forall>p. files w' p \<noteq> files w p \<longrightarrow>
            (\<exists>n. uuid_count w \<le> n \<and> n < uuid_count w'
               \<and> (p = upload_path env @ ''/android_'' @ uuid4 env n
                  \<or> p = upload_path env @ ''/ios_'' @ uuid4 env n)))
      \<and> list_all2 (\<lambda>a r. is_asset_of env (uuid_count w) (uuid_count w') a (asset_target r))
           (filter (\<lambda>a. validate env a = None) inputs) rows
      \<and> (inj (uuid4 env) \<longrightarrow>
            list_all2 (\<lambda>a r. file_of (files w') a (asset_target r))
              (filter (\<lambda>a. validate env a = None) inputs) rows)"
proof (induction inputs arbitrary: created errors w)
  case Nil
  show ?case by simp
next
  case (Cons a rest)
  show ?case
  proof (cases "validate env a")
    case (Some m)
    from Cons.IH [of created "errors @ [m]" w] obtain rows w' where
      "create_assets_loop env rest created (errors @ [m]) w
         = (created @ rows, (errors @ [m]) @ List.map_filter (validate env) rest, w')"
      "assets w' = assets w @ rows"
      "uuid_count w \<le> uuid_count w'"
      "\<forall>p. files w' p \<noteq> files w p \<longrightarrow>
            (\<exists>n. uuid_count w \<le> n \<and> n < uuid_count w'
               \<and> (p = upload_path env @ ''/android_'' @ uuid4 env n
                  \<or> p = upload_path env @ ''/ios_'' @ uuid4 env n))"
      "list_all2 (\<lambda>a r. is_asset_of env (uuid_count w) (uuid_count w') a (asset_target r))
           (filter (\<lambda>a. validate env a = None) rest) rows"
      "inj (uuid4 env) \<longrightarrow>
            list_all2 (\<lambda>a r. file_of (files w') a (asset_target r))
              (filter (\<lambda>a. validate env a = None) rest) rows"
      by blast
    with Some have
      "create_assets_loop env (a # rest) created errors w
        = (created @ rows, errors @ List.map_filter (validate env) (a # rest), w')
      \<and> assets w' = assets w @ rows
      \<and> uuid_count w \<le> uuid_count w'
      \<and> (\<forall>p. files w' p \<noteq> files w p \<longrightarrow>
            (\<exists>n. uuid_count w \<le> n \<and> n < uuid_count w'
               \<and> (p = upload_path env @ ''/android_'' @ uuid4 env n
                  \<or> p = upload_path env @ ''/ios_'' @ uuid4 env n)))
      \<and> list_all2 (\<lambda>a r. is_asset_of env (uuid_count w) (uuid_count w') a (asset_target r))
           (filter (\<lambda>a. validate env a = None) (a # rest)) rows
      \<and> (inj (uuid4 env) \<longrightarrow>
            list_all2 (\<lambda>a r. file_of (files w') a (asset_target r))
              (filter (\<lambda>a. validate env a = None) (a # rest)) rows)"
      by simp
    then show ?thesis by blast
  next
    case None
    from create_targets_valid [OF None, of created w] obtain row w1 where
      s1: "create_targets env a (created, w) = (created @ [row], w1)" and
      s2: "assets w1 = assets w @ [row]" and
      s3: "uuid_count w \<le> uuid_count w1" and
      s4: "\<forall>p. files w1 p \<noteq> files w p \<longrightarrow>
                 (\<exists>n. uuid_count w \<le> n \<and> n < uuid_count w1
                    \<and> (p = upload_path env @ ''/android_'' @ uuid4 env n
                       \<or> p = upload_path env @ ''/ios_'' @ uuid4 env n))" and
      s5: "is_asset_of env (uuid_count w) (uuid_count w1) a (asset_target row)" and
      s6: "file_of (files w1) a (asset_target row)"
      by blast
    from Cons.IH [of "created @ [row]" errors w1] obtain rows w' where
      i1: "create_assets_loop env rest (created @ [row]) errors w1
         = ((created @ [row]) @ rows, errors @ List.map_filter (validate env) rest, w')" and
      i2: "assets w' = assets w1 @ rows" and
      i3: "uuid_count w1 \<le> uuid_count w'" and
      i4: "\<forall>p. files w' p \<noteq> files w1 p \<longrightarrow>
            (\<exists>n. uuid_count w1 \<le> n \<and> n < uuid_count w'
               \<and> (p = upload_path env @ ''/android_'' @ uuid4 env n
                  \<or> p = upload_path env @ ''/ios_'' @ uuid4 env n))" and
      i5: "list_all2 (\<lambda>a r. is_asset_of env (uuid_count w1) (uuid_count w') a (asset_target r))
           (filter (\<lambda>a. validate env a = None) rest) rows" and
      i6: "inj (uuid4 env) \<longrightarrow>
            list_all2 (\<lambda>a r. file_of (files w') a (asset_target r))
              (filter (\<lambda>a. validate env a = None) rest) rows"
      by blast
    have c1: "create_assets_loop env (a # rest) created errors w
        = (created @ (row # rows), errors @ List.map_filter (validate env) (a # rest), w')"
      using None s1 i1 by simp
    have c2: "assets w' = assets w @ (row # rows)"
      using s2 i2 by simp
    have c3: "uuid_count w \<le> uuid_count w'"
      using s3 i3 by simp
    have c4: "\<forall>p. files w' p \<noteq> files w p \<longrightarrow>
            (\<exists>n. uuid_count w \<le> n \<and> n < uuid_count w'
               \<and> (p = upload_path env @ ''/android_'' @ uuid4 env n
                  \<or> p = upload_path env @ ''/ios_'' @ uuid4 env n))"
    proof (intro allI impI)
      fix p
      assume d: "files w' p \<noteq> files w p"
      show "\<exists>n. uuid_count w \<le> n \<and> n < uuid_count w'
               \<and> (p = upload_path env @ ''/android_'' @ uuid4 env n
                  \<or> p = upload_path env @ ''/ios_'' @ uuid4 env n)"
      proof (cases "files w' p = files w1 p")
        case True
        with d have "files w1 p \<noteq> files w p" by simp
        with s4 obtain n where "uuid_count w \<le> n" "n < uuid_count w1"
          "p = upload_path env @ ''/android_'' @ uuid4 env n
             \<or> p = upload_path env @ ''/ios_'' @ uuid4 env n"
          by blast
        with i3 show ?thesis by (intro exI [where x = n]) simp
      next
        case False
        with i4 obtain n where "uuid_count w1 \<le> n" "n < uuid_count w'"
          "p = upload_path env @ ''/android_'' @ uuid4 env n
             \<or> p = upload_path env @ ''/ios_'' @ uuid4 env n"
          by blast
        with s3 show ?thesis by (intro exI [where x = n]) simp
      qed
    qed
    have h5: "is_asset_of env (uuid_count w) (uuid_count w') a (asset_target row)"
      using s5 i3 by (intro is_asset_of_mono [OF s5]) simp_all
    have t5: "list_all2 (\<lambda>a r. is_asset_of env (uuid_count w) (uuid_count w') a (asset_target r))
           (filter (\<lambda>a. validate env a = None) rest) rows"
      using i5
    proof (rule list_all2_mono)
      fix x r
      assume "is_asset_of env (uuid_count w1) (uuid_count w') x (asset_target r)"
      then show "is_asset_of env (uuid_count w) (uuid_count w') x (asset_target r)"
        using s3 by (rule is_asset_of_mono) simp
    qed
    have c5: "list_all2 (\<lambda>a r. is_asset_of env (uuid_count w) (uuid_count w') a (asset_target r))
           (filter (\<lambda>a. validate env a = None) (a # rest)) (row # rows)"
      using None h5 t5 by simp
    have c6: "inj (uuid4 env) \<longrightarrow>
            list_all2 (\<lambda>a r. file_of (files w') a (asset_target r))
              (filter (\<lambda>a. validate env a = None) (a # rest)) (row # rows)"
    proof
      assume inj: "inj (uuid4 env)"
      from file_of_kept [OF inj s5 s6 i4]
      have "file_of (files w') a (asset_target row)" .
      with i6 inj None show "list_all2 (\<lambda>a r. file_of (files w') a (asset_target r))
              (filter (\<lambda>a. validate env a = None) (a # rest)) (row # rows)"
        by simp
    qed
    from c1 c2 c3 c4 c5 c6 show ?thesis by blast
  qed
qed

lemma join_snoc_concat:
  "es \<noteq> [] \<Longrightarrow> join sep es @ sep = concat (map (\<lambda>m. m @ sep) es)"
  by (induction sep es rule: join.induct) simp_all

lemma join_occurs:
  "m \<in> set es \<Longrightarrow> \<exists>before after. join sep es = before @ m @ after"
proof (induction sep es rule: join.induct)
  case (1 sep)
  then show ?case by simp
next
  case (2 sep x)
  then have "join sep [x] = [] @ m @ []" by simp
  then show ?case by blast
next
  case (3 sep x y ys)
  show ?case
  proof (cases "m = x")
    case True
    then have "join sep (x # y # ys) = [] @ m @ (sep @ join sep (y # ys))" by simp
    then show ?thesis by blast
  next
    case False
    with "3.prems" have "m \<in> set (y # ys)" by simp
    from "3.IH" [OF this] obtain b c where "join sep (y # ys) = b @ m @ c" by blast
    then have "join sep (x # y # ys) = (x @ sep @ b) @ m @ c" by simp
    then show ?thesis by blast
  qed
qed

lemma errors_of_inputs:
  "List.map_filter (validate env) inputs
     = map (\<lambda>a. if target_count a = 0
                 then ''Asset '' @ str_asset_input env a @ '' input is missing target.''
                 else ''Single target input must be defined for asset ''
                        @ str_asset_input env a @ ''.'')
           (filter (\<lambda>a. target_count a \<noteq> 1) inputs)"
  by (induction inputs) (simp_all add: validate_target_count)

lemma valid_inputs:
  "filter (\<lambda>a. validate env a = None) inputs = filter (\<lambda>a. target_count a = 1) inputs"
  by (induction inputs) (simp_all add: validate_target_count)

text \<open>
  Claim C8.  An input is invalid when it declares no target or more than one (these are
  the inputs \<open>_validate\<close> rejects).  When at least one input of the list is invalid,
  \<open>createAssets\<close> raises \<open>GraphQLError\<close> with the text \<open>Invalid assets: \<close> followed by one
  line for each invalid input, in order, and the line of each invalid input, which
  contains the rendering of that input, occurs in the text.  Yet the asset table has
  grown by one row for each valid input of the list, in order, each row carrying its
  input's target; and, when no two identifiers drawn are equal, the file of every
  uploaded input is in the file system under its row's path: all this was stored before
  the error was raised.
\<close>

theorem create_assets_error_keeps_valid_rows:
  "(\<exists>a \<in> set inputs. target_count a \<noteq> 1) \<longrightarrow>
     (\<exists>rows w' body.
        create_assets_mutate env inputs w
          = (Inl (GraphQLError (''Invalid assets: '' @ body)), w')
        \<and> body @ [CHR 0x0A]
            = concat (map (\<lambda>a. (if target_count a = 0
                                  then ''Asset '' @ str_asset_input env a
                                         @ '' input is missing target.''
                                  else ''Single target input must be defined for asset ''
                                         @ str_asset_input env a @ ''.'') @ [CHR 0x0A])
                          (filter (\<lambda>a. target_count a \<noteq> 1) inputs))
        \<and> (\<forall>a \<in> set inputs.
              (target_count a = 0 \<longrightarrow>
                 (\<exists>before after.
                    body = before @ ''Asset '' @ str_asset_input env a
                             @ '' input is missing target.'' @ after))
              \<and> (2 \<le> target_count a \<longrightarrow>
                 (\<exists>before after.
                    body = before @ ''Single target input must be defined for asset ''
                             @ str_asset_input env a @ ''.'' @ after))
              \<and> (validate env a = None) = (target_count a = 1))
        \<and> assets w' = assets w @ rows
        \<and> list_all2 (\<lambda>a r. is_asset_of env (uuid_count w) (uuid_count w') a (asset_target r))
             (filter (\<lambda>a. target_count a = 1) inputs) rows
        \<and> (inj (uuid4 env) \<longrightarrow>
              list_all2 (\<lambda>a r. file_of (files w') a (asset_target r))
                (filter (\<lambda>a. target_count a = 1) inputs) rows))"
proof
  let ?msg = "\<lambda>a. if target_count a = 0
                   then ''Asset '' @ str_asset_input env a @ '' input is missing target.''
                   else ''Single target input must be defined for asset ''
                          @ str_asset_input env a @ ''.''"
  let ?es = "List.map_filter (validate env) inputs"
  let ?body = "join [CHR 0x0A] ?es"
  assume "\<exists>a \<in> set inputs. target_count a \<noteq> 1"
  then have "filter (\<lambda>a. target_count a \<noteq> 1) inputs \<noteq> []"
    by (auto simp: filter_empty_conv)
  then have ne: "?es \<noteq> []"
    by (simp add: errors_of_inputs)
  from create_assets_loop_effect [of env inputs "[]" "[]" w] obtain rows w' where
    l1: "create_assets_loop env inputs [] [] w = (rows, ?es, w')" and
    l2: "assets w' = assets w @ rows" and
    l5: "list_all2 (\<lambda>a r. is_asset_of env (uuid_count w) (uuid_count w') a (asset_target r))
           (filter (\<lambda>a. validate env a = None) inputs) rows" and
    l6: "inj (uuid4 env) \<longrightarrow>
            list_all2 (\<lambda>a r. file_of (files w') a (asset_target r))
              (filter (\<lambda>a. validate env a = None) inputs) rows"
    by auto
  from l1 ne have c1: "create_assets_mutate env inputs w
          = (Inl (GraphQLError (''Invalid assets: '' @ ?body)), w')"
    by (simp add: create_assets_mutate_def)
  from join_snoc_concat [OF ne, of "[CHR 0x0A]"]
  have c2: "?body @ [CHR 0x0A]
            = concat (map (\<lambda>a. ?msg a @ [CHR 0x0A]) (filter (\<lambda>a. target_count a \<noteq> 1) inputs))"
    by (simp add: errors_of_inputs comp_def)
  have c3: "\<forall>a \<in> set inputs.
              (target_count a = 0 \<longrightarrow>
                 (\<exists>before after.
                    ?body = before @ ''Asset '' @ str_asset_input env a
                             @ '' input is missing target.'' @ after))
              \<and> (2 \<le> target_count a \<longrightarrow>
                 (\<exists>before after.
                    ?body = before @ ''Single target input must be defined for asset ''
                             @ str_asset_input env a @ ''.'' @ after))
              \<and> (validate env a = None) = (target_count a = 1)"
  proof (intro ballI conjI impI)
    fix a
    assume a: "a \<in> set inputs"
    show "(validate env a = None) = (target_count a = 1)"
      by (simp add: validate_target_count)
    {
      assume z: "target_count a = 0"
      with a have "a \<in> set (filter (\<lambda>a. target_count a \<noteq> 1) inputs)"
        by simp
      then have "?msg a \<in> set ?es"
        unfolding errors_of_inputs set_map by (rule imageI)
      from join_occurs [OF this, of "[CHR 0x0A]"] z
      show "\<exists>before after.
                    ?body = before @ ''Asset '' @ str_asset_input env a
                             @ '' input is missing target.'' @ after"
        by (simp add: append.assoc [symmetric] del: append.assoc)
    }
    {
      assume z: "2 \<le> target_count a"
      with a have "a \<in> set (filter (\<lambda>a. target_count a \<noteq> 1) inputs)"
        by simp
      then have "?msg a \<in> set ?es"
        unfolding errors_of_inputs set_map by (rule imageI)
      from join_occurs [OF this, of "[CHR 0x0A]"] z
      show "\<exists>before after.
                    ?body = before @ ''Single target input must be defined for asset ''
                             @ str_asset_input env a @ ''.'' @ after"
        by (simp add: append.assoc [symmetric] del: append.assoc)
    }
  qed
  from l5 have c5: "list_all2 (\<lambda>a r. is_asset_of env (uuid_count w) (uuid_count w') a (asset_target r))
             (filter (\<lambda>a. target_count a = 1) inputs) rows"
    by (simp only: valid_inputs)
  from l6 have c6: "inj (uuid4 env) \<longrightarrow>
              list_all2 (\<lambda>a r. file_of (files w') a (asset_target r))
                (filter (\<lambda>a. target_count a = 1) inputs) rows"
    by (simp only: valid_inputs)
  show "\<exists>rows w' body.
        create_assets_mutate env inputs w
          = (Inl (GraphQLError (''Invalid assets: '' @ body)), w')
        \<and> body @ [CHR 0x0A]
            = concat (map (\<lambda>a. (if target_count a = 0
                                  then ''Asset '' @ str_asset_input env a
                                         @ '' input is missing target.''
                                  else ''Single target input must be defined for asset ''
                                         @ str_asset_input env a @ ''.'') @ [CHR 0x0A])
                          (filter (\<lambda>a. target_count a \<noteq> 1) inputs))
        \<and> (\<forall>a \<in> set inputs.
              (target_count a = 0 \<longrightarrow>
                 (\<exists>before after.
                    body = before @ ''Asset '' @ str_asset_input env a
                             @ '' input is missing target.'' @ after))
              \<and> (2 \<le> target_count a \<longrightarrow>
                 (\<exists>before after.
                    body = before @ ''Single target input must be defined for asset ''
                             @ str_asset_input env a @ ''.'' @ after))
              \<and> (validate env a = None) = (target_count a = 1))
        \<and> assets w' = assets w @ rows
        \<and> list_all2 (\<lambda>a r. is_asset_of env (uuid_count w) (uuid_count w') a (asset_target r))
             (filter (\<lambda>a. target_count a = 1) inputs) rows
        \<and> (inj (uuid4 env) \<longrightarrow>
              list_all2 (\<lambda>a r. file_of (files w') a (asset_target r))
                (filter (\<lambda>a. target_count a = 1) inputs) rows)"
    by (rule exI [where x = rows], rule exI [where x = w'], rule exI [where x = ?body],
        intro conjI c1 c2 c3 l2 c5 c6)
qed

theorem create_assets_error_keeps_valid_rows_witness:
  "\<exists>rows w' n.
     create_assets_mutate example_runtime
         [asset_input_none, example_store_input, example_two_targets_input,
          example_file_input, example_ip_input] example_world
       = (Inl (GraphQLError
                 (''Invalid assets: Asset {} input is missing target.'' @ [CHR 0x0A]
                    @ ''Single target input must be defined for asset {two targets}.'')),
          w')
     \<and> assets w' = assets example_world @ rows
     \<and> map asset_target rows
         = [Android_store_row ''a.b.c'' ''fake_app'',
            Android_file_row ''d.e.f'' (''/uploads/android_'' @ replicate (Suc n) CHR ''u''),
            Network_row [''8.8.8.0/24'', ''10.0.0.1'']]
     \<and> files w' (''/uploads/android_'' @ replicate (Suc n) CHR ''u'') = Some ''apk bytes''"
proof -
  let ?inputs = "[asset_input_none, example_store_input, example_two_targets_input,
                  example_file_input, example_ip_input]"
  have t: "target_count asset_input_none = 0" "target_count example_store_input = 1"
    "target_count example_two_targets_input = 2" "target_count example_file_input = 1"
    "target_count example_ip_input = 1"
    by (simp_all add: target_count_def asset_input_none_def example_store_input_def
        example_two_targets_input_def example_file_input_def example_ip_input_def)
  have s: "str_asset_input example_runtime asset_input_none = ''{}''"
    "str_asset_input example_runtime example_two_targets_input = ''{two targets}''"
    by (simp_all add: example_runtime_def example_two_targets_input_def asset_input_none_def)
  have h: "\<exists>a \<in> set ?inputs. target_count a \<noteq> 1"
    using t(1) by simp
  have i: "inj (uuid4 example_runtime)"
    by (simp add: example_runtime_def inj_def)
  from create_assets_error_keeps_valid_rows [THEN mp, OF h, of example_runtime example_world]
  obtain rows w' body where
    r1: "create_assets_mutate example_runtime ?inputs example_world
          = (Inl (GraphQLError (''Invalid assets: '' @ body)), w')" and
    r2: "body @ [CHR 0x0A]
            = concat (map (\<lambda>a. (if target_count a = 0
                                  then ''Asset '' @ str_asset_input example_runtime a
                                         @ '' input is missing target.''
                                  else ''Single target input must be defined for asset ''
                                         @ str_asset_input example_runtime a @ ''.'') @ [CHR 0x0A])
                          (filter (\<lambda>a. target_count a \<noteq> 1) ?inputs))" and
    r4: "assets w' = assets example_world @ rows" and
    r5: "list_all2 (\<lambda>a r. is_asset_of example_runtime (uuid_count example_world) (uuid_count w')
                             a (asset_target r))
             (filter (\<lambda>a. target_count a = 1) ?inputs) rows" and
    r6: "inj (uuid4 example_runtime) \<longrightarrow>
              list_all2 (\<lambda>a r. file_of (files w') a (asset_target r))
                (filter (\<lambda>a. target_count a = 1) ?inputs) rows"
    by blast
  from r2 have "body @ [CHR 0x0A]
        = (''Asset {} input is missing target.'' @ [CHR 0x0A]
             @ ''Single target input must be defined for asset {two targets}.'') @ [CHR 0x0A]"
    by (simp add: t s)
  then have body: "body = ''Asset {} input is missing target.'' @ [CHR 0x0A]
             @ ''Single target input must be defined for asset {two targets}.''"
    by (simp only: append_same_eq)
  from r5 obtain ra rb rc where
    rows: "rows = [ra, rb, rc]" and
    a1: "is_asset_of example_runtime (uuid_count example_world) (uuid_count w')
           example_store_input (asset_target ra)" and
    a2: "is_asset_of example_runtime (uuid_count example_world) (uuid_count w')
           example_file_input (asset_target rb)" and
    a3: "is_asset_of example_runtime (uuid_count example_world) (uuid_count w')
           example_ip_input (asset_target rc)"
    by (auto simp: t list_all2_Cons1)
  from a1 have ta: "asset_target ra = Android_store_row ''a.b.c'' ''fake_app''"
    by (cases "asset_target ra")
       (simp_all add: is_asset_of_def example_store_input_def asset_input_none_def)
  from a2 obtain n where
    tb: "asset_target rb
           = Android_file_row ''d.e.f'' (''/uploads/android_'' @ replicate (Suc n) CHR ''u'')"
    by (cases "asset_target rb")
       (auto simp: is_asset_of_def example_file_input_def asset_input_none_def
          example_runtime_def)
  from a3 have tc: "asset_target rc = Network_row [''8.8.8.0/24'', ''10.0.0.1'']"
    by (cases "asset_target rc")
       (simp_all add: is_asset_of_def example_ip_input_def asset_input_none_def)
  from r6 [THEN mp, OF i] have "file_of (files w') example_file_input (asset_target rb)"
    by (simp add: t rows)
  then have f: "files w' (''/uploads/android_'' @ replicate (Suc n) CHR ''u'') = Some ''apk bytes''"
    by (simp add: tb file_of_def example_file_input_def asset_input_none_def)
  have m: "create_assets_mutate example_runtime ?inputs example_world
       = (Inl (GraphQLError
                 (''Invalid assets: Asset {} input is missing target.'' @ [CHR 0x0A]
                    @ ''Single target input must be defined for asset {two targets}.'')),
          w')"
    using r1 by (simp add: body)
  have ts: "map asset_target rows
         = [Android_store_row ''a.b.c'' ''fake_app'',
            Android_file_row ''d.e.f'' (''/uploads/android_'' @ replicate (Suc n) CHR ''u''),
            Network_row [''8.8.8.0/24'', ''10.0.0.1'']]"
    by (simp add: rows ta tb tc)
  show ?thesis
    by (rule exI [where x = rows], rule exI [where x = w'], rule exI [where x = n],
        intro conjI m r4 ts f)
qed

end
